theory Spec2Isabelle
  imports Complex_Main "HOL-Library.Stream"
begin

section \<open>Numbers and library functions\<close>

text \<open>
  A JavaScript number is modelled as a \<^typ>\<open>real\<close>: the arithmetic of the source is
  read as exact arithmetic, so rounding, infinities and NaN are outside the model.
  Loop counters and array indices are natural numbers, the result of \<open>Math.floor\<close>
  is an \<^typ>\<open>int\<close> (it can be negative before the range check).

  \<open>Math.pow b e\<close>: for an integral exponent the integer power (defined for every
  base), otherwise the real power \<open>b powr e\<close>, which is \<open>exp (e * ln b)\<close> for a positive
  base and \<open>0\<close> for base \<open>0\<close> with a positive exponent, as in JavaScript.
\<close>

definition Math_pow :: "real \<Rightarrow> real \<Rightarrow> real" where
  "Math_pow b e = (if of_int \<lfloor>e\<rfloor> = e then b powi \<lfloor>e\<rfloor> else b powr e)"

definition Math_max :: "real \<Rightarrow> real \<Rightarrow> real" where
  "Math_max a b = (if a < b then b else a)"

definition Math_min :: "real \<Rightarrow> real \<Rightarrow> real" where
  "Math_min a b = (if b < a then b else a)"

section \<open>ThermalSystem\<close>

subsection \<open>Data\<close>

record source_pos =
  pos_x :: real
  pos_z :: real

record thermal_params =
  gridSize :: nat
  heightLevels :: nat
  heatSourcePos :: source_pos
  coldSourcePos :: source_pos
  baseTemperature :: real

text \<open>A field is the nested array \<open>field[h][x][z]\<close>.\<close>

type_synonym field = "real list list list"

text \<open>
  The state of a \<open>ThermalSystem\<close> object. The scene objects (meshes, lights, colour
  buffers of the visualisation) are written by the class but never read by the
  simulation, and are left out.
\<close>

record thermal_system =
  params :: thermal_params
  temperatureField :: field
  pressureField :: field
  densityField :: field
  heatIntensity :: real
  coldIntensity :: real

definition cell :: "field \<Rightarrow> nat \<Rightarrow> nat \<Rightarrow> nat \<Rightarrow> real" where
  "cell f h x z = f ! h ! x ! z"

definition set_cell :: "field \<Rightarrow> nat \<Rightarrow> nat \<Rightarrow> nat \<Rightarrow> real \<Rightarrow> field" where
  "set_cell f h x z v = f[h := (f ! h)[x := (f ! h ! x)[z := v]]]"

text \<open>
  The three fields have the dimensions of the parameters: \<open>heightLevels\<close> levels of
  \<open>gridSize\<close> rows of \<open>gridSize\<close> cells. The constructor builds them so, and nothing
  in the source changes \<open>gridSize\<close> or \<open>heightLevels\<close> afterwards; the in-place loops
  below only touch cells inside these dimensions.
\<close>

definition dims_ok :: "nat \<Rightarrow> nat \<Rightarrow> field \<Rightarrow> bool" where
  "dims_ok H G f \<longleftrightarrow>
     length f = H \<and> (\<forall>h < H. length (f ! h) = G \<and> (\<forall>x < G. length (f ! h ! x) = G))"

definition wf_fields :: "thermal_system \<Rightarrow> bool" where
  "wf_fields s \<longleftrightarrow>
     dims_ok (heightLevels (params s)) (gridSize (params s)) (temperatureField s) \<and>
     dims_ok (heightLevels (params s)) (gridSize (params s)) (pressureField s) \<and>
     dims_ok (heightLevels (params s)) (gridSize (params s)) (densityField s)"

subsection \<open>Initialisation\<close>

definition calculateBasePressure :: "real \<Rightarrow> real" where
  "calculateBasePressure height = 101325 * Math_pow (1 - 0.0065 * height / 288.15) 5.255"

definition calculateDensity :: "real \<Rightarrow> real \<Rightarrow> real" where
  "calculateDensity pressure temperature =
     (let R = 287.05 in pressure / (R * (temperature + 273.15)))"

text \<open>
  \<open>initializeFields\<close> runs once, from the constructor, on empty arrays: each iteration
  of its loops stores the next element of the array it is filling, so the three loops
  build the nested lists level by level, row by row, cell by cell.
\<close>

definition initializeFields :: "thermal_system \<Rightarrow> thermal_system" where
  "initializeFields s =
     (let gs = gridSize (params s); hl = heightLevels (params s);
          height = (\<lambda>h. (real h / real hl) * 2000);
          baseTemp = (\<lambda>h. baseTemperature (params s) - height h * 0.0065);
          build = (\<lambda>v. map (\<lambda>h. map (\<lambda>x. map (\<lambda>z. v h) [0..<gs]) [0..<gs]) [0..<hl])
      in s\<lparr>temperatureField := build baseTemp,
            pressureField := build (\<lambda>h. calculateBasePressure (height h)),
            densityField :=
              build (\<lambda>h. calculateDensity (calculateBasePressure (height h)) (baseTemp h))\<rparr>)"

text \<open>The constructor: the given parameters, empty fields, intensities 80 and 60.\<close>

definition new_ThermalSystem :: "thermal_params \<Rightarrow> thermal_system" where
  "new_ThermalSystem p =
     initializeFields \<lparr>params = p, temperatureField = [], pressureField = [],
       densityField = [], heatIntensity = 80, coldIntensity = 60\<rparr>"

definition setHeatIntensity :: "real \<Rightarrow> thermal_system \<Rightarrow> thermal_system" where
  "setHeatIntensity intensity s = s\<lparr>heatIntensity := Math_max 0 (Math_min 100 intensity)\<rparr>"

definition setColdIntensity :: "real \<Rightarrow> thermal_system \<Rightarrow> thermal_system" where
  "setColdIntensity intensity s = s\<lparr>coldIntensity := Math_max 0 (Math_min 100 intensity)\<rparr>"

subsection \<open>Field update\<close>

text \<open>The body of the innermost loop of \<open>updateTemperatureField\<close>, for one cell.\<close>

definition temperatureCell :: "nat \<Rightarrow> nat \<Rightarrow> nat \<Rightarrow> thermal_system \<Rightarrow> thermal_system" where
  "temperatureCell h x z s =
     (let gs = real (gridSize (params s)); hl = real (heightLevels (params s));
          worldX = (real x - gs / 2) * (4000 / gs);
          worldZ = (real z - gs / 2) * (1000 / gs);
          heatDist = sqrt (Math_pow (worldX - pos_x (heatSourcePos (params s))) 2 +
                           Math_pow (worldZ - pos_z (heatSourcePos (params s))) 2);
          coldDist = sqrt (Math_pow (worldX - pos_x (coldSourcePos (params s))) 2 +
                           Math_pow (worldZ - pos_z (coldSourcePos (params s))) 2);
          s1 = (if heatDist < 800
                then let heatInfluence = (1 - heatDist / 800) * heatIntensity s / 100
                     in s\<lparr>temperatureField := set_cell (temperatureField s) h x z
                            (cell (temperatureField s) h x z + heatInfluence * 0.1)\<rparr>
                else s);
          s2 = (if coldDist < 800
                then let coldInfluence = (1 - coldDist / 800) * coldIntensity s1 / 100
                     in s1\<lparr>temperatureField := set_cell (temperatureField s1) h x z
                            (cell (temperatureField s1) h x z - coldInfluence * 0.1)\<rparr>
                else s1);
          height = (real h / hl) * 2000;
          lapseRate = 0.0065
      in s2\<lparr>temperatureField := set_cell (temperatureField s2) h x z
              (cell (temperatureField s2) h x z - height * lapseRate * 0.01)\<rparr>)"

definition updateTemperatureField :: "thermal_system \<Rightarrow> thermal_system" where
  "updateTemperatureField s =
     (let gs = gridSize (params s); hl = heightLevels (params s)
      in fold (\<lambda>h. fold (\<lambda>x. fold (\<lambda>z. temperatureCell h x z) [0..<gs]) [0..<gs]) [0..<hl] s)"

text \<open>The body of the innermost loop of \<open>updatePressureField\<close>, for one cell.\<close>

definition pressureCell :: "nat \<Rightarrow> nat \<Rightarrow> nat \<Rightarrow> thermal_system \<Rightarrow> thermal_system" where
  "pressureCell h x z s =
     (let temp = cell (temperatureField s) h x z;
          height = (real h / real (heightLevels (params s))) * 2000;
          basePressure = calculateBasePressure height;
          tempRatio = (temp + 273.15) / 288.15;
          pressureVariation = basePressure * (1 - (tempRatio - 1) * 0.1)
      in s\<lparr>pressureField := set_cell (pressureField s) h x z pressureVariation,
            densityField := set_cell (densityField s) h x z
                              (calculateDensity pressureVariation temp)\<rparr>)"

definition updatePressureField :: "thermal_system \<Rightarrow> thermal_system" where
  "updatePressureField s =
     (let gs = gridSize (params s); hl = heightLevels (params s)
      in fold (\<lambda>h. fold (\<lambda>x. fold (\<lambda>z. pressureCell h x z) [0..<gs]) [0..<gs]) [0..<hl] s)"

text \<open>
  \<open>updateFields\<close> takes \<open>deltaTime\<close> and runs the two passes one after the other; its
  third step, \<open>updateVisualization\<close>, only recolours the mesh.
\<close>

definition updateFields :: "real \<Rightarrow> thermal_system \<Rightarrow> thermal_system" where
  "updateFields deltaTime s = updatePressureField (updateTemperatureField s)"

subsection \<open>Point queries\<close>

definition getTemperatureAt :: "thermal_system \<Rightarrow> real \<Rightarrow> real \<Rightarrow> real \<Rightarrow> real" where
  "getTemperatureAt s x y z =
     (let gs = gridSize (params s);
          spacing = 4000 / real gs;
          gridX = \<lfloor>(x + 2000) / spacing\<rfloor>;
          gridZ = \<lfloor>(z + 500) / spacing\<rfloor>;
          gridH = \<lfloor>y / 100\<rfloor>
      in if gridX \<ge> 0 \<and> gridX < int gs \<and> gridZ \<ge> 0 \<and> gridZ < int gs \<and>
            gridH \<ge> 0 \<and> gridH < int (heightLevels (params s))
         then cell (temperatureField s) (nat gridH) (nat gridX) (nat gridZ)
         else baseTemperature (params s))"

definition getPressureAt :: "thermal_system \<Rightarrow> real \<Rightarrow> real \<Rightarrow> real \<Rightarrow> real" where
  "getPressureAt s x y z =
     (let gs = gridSize (params s);
          spacing = 4000 / real gs;
          gridX = \<lfloor>(x + 2000) / spacing\<rfloor>;
          gridZ = \<lfloor>(z + 500) / spacing\<rfloor>;
          gridH = \<lfloor>y / 100\<rfloor>
      in if gridX \<ge> 0 \<and> gridX < int gs \<and> gridZ \<ge> 0 \<and> gridZ < int gs \<and>
            gridH \<ge> 0 \<and> gridH < int (heightLevels (params s))
         then cell (pressureField s) (nat gridH) (nat gridX) (nat gridZ)
         else 101325)"

text \<open>\<open>THREE.Vector3\<close>: three numbers.\<close>

record vec3 =
  vx :: real
  vy :: real
  vz :: real

definition getWindVectorAt :: "thermal_system \<Rightarrow> real \<Rightarrow> real \<Rightarrow> real \<Rightarrow> vec3" where
  "getWindVectorAt s x y z =
     (let delta = 50;
          p0 = getPressureAt s x y z;
          px = getPressureAt s (x + delta) y z;
          pz = getPressureAt s x y (z + delta);
          fx = - (px - p0) / delta;
          fz = - (pz - p0) / delta;
          temp = getTemperatureAt s x y z;
          tempBelow = getTemperatureAt s x (y - 100) z;
          fy = (temp - tempBelow) * 0.01
      in \<lparr>vx = fx, vy = fy, vz = fz\<rparr>)"

section \<open>The field update in the words of the specification\<close>

text \<open>
  World coordinates of a cell and altitude of a level, as \<open>updateTemperatureField\<close>
  and \<open>updatePressureField\<close> compute them: the planar spacing is \<open>4000 / gridSize\<close>
  along x and \<open>1000 / gridSize\<close> along z, the grid is centred on the origin, and level
  \<open>h\<close> lies at \<open>h / heightLevels * 2000\<close>.
\<close>

definition worldX :: "thermal_params \<Rightarrow> nat \<Rightarrow> real" where
  "worldX p x = (real x - real (gridSize p) / 2) * (4000 / real (gridSize p))"

definition worldZ :: "thermal_params \<Rightarrow> nat \<Rightarrow> real" where
  "worldZ p z = (real z - real (gridSize p) / 2) * (1000 / real (gridSize p))"

definition levelHeight :: "thermal_params \<Rightarrow> nat \<Rightarrow> real" where
  "levelHeight p h = (real h / real (heightLevels p)) * 2000"

text \<open>
  The specification's description of one tick, cell by cell: the planar Euclidean
  distance to a source, the temperature after the temperature pass (heat term added
  and cold term subtracted inside radius 800, lapse correction subtracted), the
  pressure \<open>baseline(height) * (1 - (T_ratio - 1) * 0.1)\<close> and the density
  \<open>P / (R * (T + 273.15))\<close>.
\<close>

definition spec_distance :: "thermal_params \<Rightarrow> nat \<Rightarrow> nat \<Rightarrow> source_pos \<Rightarrow> real" where
  "spec_distance p x z src = sqrt ((worldX p x - pos_x src)\<^sup>2 + (worldZ p z - pos_z src)\<^sup>2)"

definition spec_temperature :: "thermal_system \<Rightarrow> nat \<Rightarrow> nat \<Rightarrow> nat \<Rightarrow> real \<Rightarrow> real" where
  "spec_temperature s h x z t =
     (let heatDist = spec_distance (params s) x z (heatSourcePos (params s));
          coldDist = spec_distance (params s) x z (coldSourcePos (params s))
      in t + (if heatDist < 800 then (1 - heatDist / 800) * heatIntensity s / 100 * 0.1 else 0)
           - (if coldDist < 800 then (1 - coldDist / 800) * coldIntensity s / 100 * 0.1 else 0)
           - levelHeight (params s) h * 0.0065 * 0.01)"

definition spec_baseline :: "real \<Rightarrow> real" where
  "spec_baseline height = 101325 * (1 - 0.0065 * height / 288.15) powr 5.255"

definition spec_pressure :: "thermal_params \<Rightarrow> nat \<Rightarrow> real \<Rightarrow> real" where
  "spec_pressure p h t =
     (let T_ratio = (t + 273.15) / 288.15
      in spec_baseline (levelHeight p h) * (1 - (T_ratio - 1) * 0.1))"

definition spec_density :: "real \<Rightarrow> real \<Rightarrow> real" where
  "spec_density p t = p / (287.05 * (t + 273.15))"

subsection \<open>Auxiliary notions\<close>

text \<open>Two states with the same parameters and the same two intensities.\<close>

definition same_config :: "thermal_system \<Rightarrow> thermal_system \<Rightarrow> bool" where
  "same_config s s' \<longleftrightarrow> params s' = params s \<and> heatIntensity s' = heatIntensity s \<and>
     coldIntensity s' = coldIntensity s"

text \<open>A cell index inside the dimensions of the grid.\<close>

definition in_grid :: "thermal_params \<Rightarrow> nat \<times> nat \<times> nat \<Rightarrow> bool" where
  "in_grid p k \<longleftrightarrow> (case k of (h, x, z) \<Rightarrow> h < heightLevels p \<and> x < gridSize p \<and> z < gridSize p)"

text \<open>The cells in the order in which the three nested loops visit them.\<close>

definition grid_cells :: "thermal_params \<Rightarrow> (nat \<times> nat \<times> nat) list" where
  "grid_cells p = List.product [0..<heightLevels p] (List.product [0..<gridSize p] [0..<gridSize p])"

text \<open>The ideal-gas relation between the three stored values of one cell.\<close>

definition density_law :: "thermal_system \<Rightarrow> nat \<Rightarrow> nat \<Rightarrow> nat \<Rightarrow> bool" where
  "density_law s h x z \<longleftrightarrow>
     cell (densityField s) h x z =
       cell (pressureField s) h x z / (287.05 * (cell (temperatureField s) h x z + 273.15))"

section \<open>Example configurations\<close>

text \<open>A two-by-two grid with two levels.\<close>

definition tiny_params :: thermal_params where
  "tiny_params = \<lparr>gridSize = 2, heightLevels = 2, heatSourcePos = \<lparr>pos_x = -800, pos_z = 0\<rparr>,
     coldSourcePos = \<lparr>pos_x = 800, pos_z = 0\<rparr>, baseTemperature = 20\<rparr>"

text \<open>
  The end-to-end scenario: a 10 x 10 grid with 4 levels, heat source at \<open>(-800, 0)\<close>
  set to intensity 100, cold source at \<open>(800, 0)\<close> set to intensity 0, base temperature
  at the constructor's default of 20, and 100 field updates with \<open>dt = 0.1\<close>.
\<close>

definition scenario_params :: thermal_params where
  "scenario_params = \<lparr>gridSize = 10, heightLevels = 4,
     heatSourcePos = \<lparr>pos_x = -800, pos_z = 0\<rparr>,
     coldSourcePos = \<lparr>pos_x = 800, pos_z = 0\<rparr>, baseTemperature = 20\<rparr>"

definition scenario_start :: thermal_system where
  "scenario_start = setColdIntensity 0 (setHeatIntensity 100 (new_ThermalSystem scenario_params))"

definition scenario_end :: thermal_system where
  "scenario_end = ((updateFields 0.1) ^^ 100) scenario_start"

text \<open>The parameters the application constructs its \<open>ThermalSystem\<close> with (the defaults).\<close>

definition default_params :: thermal_params where
  "default_params = \<lparr>gridSize = 50, heightLevels = 20,
     heatSourcePos = \<lparr>pos_x = -800, pos_z = 0\<rparr>,
     coldSourcePos = \<lparr>pos_x = 800, pos_z = 0\<rparr>, baseTemperature = 20\<rparr>"

section \<open>ParticleSystem\<close>

subsection \<open>THREE.Vector3 and THREE.Color\<close>

text \<open>
  The vector operations the particle code calls, as the three.js library defines them:
  \<open>add\<close>, \<open>multiplyScalar\<close>, \<open>length\<close> (the square root of the sum of the squared
  components) and \<open>normalize\<close> (\<open>divideScalar(length() || 1)\<close>, and \<open>divideScalar k\<close> is
  \<open>multiplyScalar (1 / k)\<close>). \<open>clone\<close> is the identity on values.
\<close>

definition vec_add :: "vec3 \<Rightarrow> vec3 \<Rightarrow> vec3" where
  "vec_add v w = \<lparr>vx = vx v + vx w, vy = vy v + vy w, vz = vz v + vz w\<rparr>"

definition multiplyScalar :: "vec3 \<Rightarrow> real \<Rightarrow> vec3" where
  "multiplyScalar v k = \<lparr>vx = vx v * k, vy = vy v * k, vz = vz v * k\<rparr>"

definition vec_length :: "vec3 \<Rightarrow> real" where
  "vec_length v = sqrt (vx v * vx v + vy v * vy v + vz v * vz v)"

definition normalize :: "vec3 \<Rightarrow> vec3" where
  "normalize v = multiplyScalar v (1 / (if vec_length v = 0 then 1 else vec_length v))"

text \<open>
  A colour is its three components \<open>(r, g, b)\<close>. \<open>THREE.Color.setHSL\<close> is not code of
  this repository and no property below depends on it: it is a parameter \<open>setHSL\<close> of
  every function that colours a particle.
\<close>

type_synonym color = "real \<times> real \<times> real"

subsection \<open>Arrays\<close>

text \<open>
  \<open>positions\<close>, \<open>colors\<close> and \<open>sizes\<close> are \<open>Float32Array\<close>s: their length is fixed at
  creation and a write outside it is ignored, which is what \<open>xs[i := v]\<close> does on a
  list. \<open>velocities\<close> is an ordinary array of \<open>Vector3\<close> objects: a write at or beyond
  its length extends it, leaving holes (\<open>None\<close>) in between, and reading a hole or
  beyond the end gives \<open>undefined\<close> (\<open>None\<close>). Reading a \<open>Float32Array\<close> outside
  its length gives \<open>undefined\<close> too, which the arithmetic turns into NaN; the model
  reads the buffers with \<open>xs ! i\<close> and the properties of the advection step assume \<open>wf_particles\<close>,
  under which all these reads are inside the buffers. The rounding of a stored number
  to single precision is not modelled.
\<close>

definition array_get :: "'a option list \<Rightarrow> nat \<Rightarrow> 'a option" where
  "array_get xs i = (if i < length xs then xs ! i else None)"

definition array_set :: "'a option list \<Rightarrow> nat \<Rightarrow> 'a \<Rightarrow> 'a option list" where
  "array_set xs i v =
     (if i < length xs then xs[i := Some v]
      else xs @ replicate (i - length xs) None @ [Some v])"

subsection \<open>State\<close>

text \<open>
  The state of a \<open>ParticleSystem\<close> object, without its scene objects. \<open>random\<close> is
  the sequence of numbers that the following calls of \<open>Math.random\<close> return.
\<close>

record particle_system =
  maxParticles :: nat
  particleSize :: real
  particleSpeed :: real
  positions :: "real list"
  colors :: "real list"
  sizes :: "real list"
  velocities :: "vec3 option list"
  isActive :: bool
  random :: "real stream"

subsection \<open>Creating particles\<close>

definition temperatureToParticleColor :: "(real \<Rightarrow> real \<Rightarrow> real \<Rightarrow> color) \<Rightarrow> real \<Rightarrow> color" where
  "temperatureToParticleColor setHSL temperature =
     (let minTemp = -10; maxTemp = 40;
          normalized = Math_max 0 (Math_min 1 ((temperature - minTemp) / (maxTemp - minTemp)));
          hue = (1 - normalized) * 240 / 360
      in setHSL hue 0.8 0.6)"

definition initializeParticle ::
  "(real \<Rightarrow> real \<Rightarrow> real \<Rightarrow> color) \<Rightarrow> thermal_system \<Rightarrow> nat \<Rightarrow> particle_system \<Rightarrow> particle_system" where
  "initializeParticle setHSL ts index s =
     (let i3 = index * 3;
          x = (shd (random s) - 0.5) * 4000;
          y = shd (stl (random s)) * 2000;
          z = (shd (stl (stl (random s))) - 0.5) * 1000;
          temp = getTemperatureAt ts x y z
      in case temperatureToParticleColor setHSL temp of (r, g, b) \<Rightarrow>
         s\<lparr>positions := (positions s)[i3 := x, i3 + 1 := y, i3 + 2 := z],
           colors := (colors s)[i3 := r, i3 + 1 := g, i3 + 2 := b],
           sizes := (sizes s)[index := particleSize s],
           velocities := array_set (velocities s) index \<lparr>vx = 0, vy = 0, vz = 0\<rparr>,
           random := stl (stl (stl (random s)))\<rparr>)"

text \<open>
  \<open>createParticleSystem\<close> allocates new \<open>positions\<close>, \<open>colors\<close> and \<open>sizes\<close> buffers
  and initialises the particles \<open>0, \<dots>, maxParticles - 1\<close>. It does not assign
  \<open>velocities\<close>: only the constructor sets that array to \<open>[]\<close>.
\<close>

definition createParticleSystem ::
  "(real \<Rightarrow> real \<Rightarrow> real \<Rightarrow> color) \<Rightarrow> thermal_system \<Rightarrow> particle_system \<Rightarrow> particle_system" where
  "createParticleSystem setHSL ts s =
     fold (\<lambda>i. initializeParticle setHSL ts i) [0..<maxParticles s]
       (s\<lparr>positions := replicate (maxParticles s * 3) 0,
          colors := replicate (maxParticles s * 3) 0,
          sizes := replicate (maxParticles s) 0\<rparr>)"

definition new_ParticleSystem ::
  "(real \<Rightarrow> real \<Rightarrow> real \<Rightarrow> color) \<Rightarrow> thermal_system \<Rightarrow> nat \<Rightarrow> real \<Rightarrow> real \<Rightarrow> real stream
     \<Rightarrow> particle_system" where
  "new_ParticleSystem setHSL ts n psize speed rnd =
     createParticleSystem setHSL ts
       \<lparr>maxParticles = n, particleSize = psize, particleSpeed = speed, positions = [],
        colors = [], sizes = [], velocities = [], isActive = False, random = rnd\<rparr>"

subsection \<open>Advection of one particle\<close>

text \<open>
  \<open>updateParticle\<close> in the order of its statements: the buoyancy term, the velocity
  after wind and buoyancy (\<open>accelerate\<close>), drag and the speed limit (\<open>dragAndClamp\<close>),
  the new position (\<open>integrateParticle\<close>, which fails where \<open>velocities[index]\<close> is
  \<open>undefined\<close> and the call \<open>velocity.add\<close> throws), the boundary check and the new
  colour.
\<close>

definition buoyancyForce :: "thermal_system \<Rightarrow> real \<Rightarrow> real \<Rightarrow> real \<Rightarrow> real" where
  "buoyancyForce ts x y z =
     (let temperature = getTemperatureAt ts x y z;
          baseTemperature = 20
      in (temperature - baseTemperature) * 0.001)"

definition accelerate :: "thermal_system \<Rightarrow> real \<Rightarrow> real \<Rightarrow> real \<Rightarrow> real \<Rightarrow> vec3 \<Rightarrow> vec3" where
  "accelerate ts deltaTime x y z velocity =
     (let windVector = getWindVectorAt ts x y z;
          velocity1 = vec_add velocity (multiplyScalar windVector deltaTime)
      in velocity1\<lparr>vy := vy velocity1 + buoyancyForce ts x y z * deltaTime\<rparr>)"

definition dragAndClamp :: "vec3 \<Rightarrow> vec3" where
  "dragAndClamp velocity =
     (let velocity1 = multiplyScalar velocity 0.98;
          maxSpeed = 20
      in if vec_length velocity1 > maxSpeed
         then multiplyScalar (normalize velocity1) maxSpeed
         else velocity1)"

definition integrateParticle ::
  "thermal_system \<Rightarrow> nat \<Rightarrow> real \<Rightarrow> particle_system \<Rightarrow> particle_system option" where
  "integrateParticle ts index deltaTime s =
     (let i3 = index * 3;
          x = positions s ! i3;
          y = positions s ! (i3 + 1);
          z = positions s ! (i3 + 2)
      in case array_get (velocities s) index of
           None \<Rightarrow> None
         | Some velocity0 \<Rightarrow>
             let velocity = dragAndClamp (accelerate ts deltaTime x y z velocity0)
             in Some (s\<lparr>velocities := (velocities s)[index := Some velocity],
                        positions := (positions s)
                          [i3 := x + vx velocity * deltaTime,
                           i3 + 1 := y + vy velocity * deltaTime,
                           i3 + 2 := z + vz velocity * deltaTime]\<rparr>))"

definition needsReset :: "particle_system \<Rightarrow> nat \<Rightarrow> bool" where
  "needsReset s index =
     (let i3 = index * 3;
          x = positions s ! i3;
          y = positions s ! (i3 + 1);
          z = positions s ! (i3 + 2)
      in \<bar>x\<bar> > 2000 \<or> y < 0 \<or> y > 2000 \<or> \<bar>z\<bar> > 500)"

definition checkBoundaries ::
  "(real \<Rightarrow> real \<Rightarrow> real \<Rightarrow> color) \<Rightarrow> thermal_system \<Rightarrow> nat \<Rightarrow> particle_system \<Rightarrow> particle_system" where
  "checkBoundaries setHSL ts index s =
     (if needsReset s index then initializeParticle setHSL ts index s else s)"

definition recolorParticle ::
  "(real \<Rightarrow> real \<Rightarrow> real \<Rightarrow> color) \<Rightarrow> thermal_system \<Rightarrow> nat \<Rightarrow> particle_system \<Rightarrow> particle_system" where
  "recolorParticle setHSL ts index s =
     (let i3 = index * 3;
          temp = getTemperatureAt ts (positions s ! i3) (positions s ! (i3 + 1))
                   (positions s ! (i3 + 2))
      in case temperatureToParticleColor setHSL temp of (r, g, b) \<Rightarrow>
         s\<lparr>colors := (colors s)[i3 := r, i3 + 1 := g, i3 + 2 := b]\<rparr>)"

definition updateParticle ::
  "(real \<Rightarrow> real \<Rightarrow> real \<Rightarrow> color) \<Rightarrow> thermal_system \<Rightarrow> nat \<Rightarrow> real \<Rightarrow> particle_system
     \<Rightarrow> particle_system option" where
  "updateParticle setHSL ts index deltaTime s =
     (case integrateParticle ts index deltaTime s of
        None \<Rightarrow> None
      | Some s1 \<Rightarrow> Some (recolorParticle setHSL ts index (checkBoundaries setHSL ts index s1)))"

subsection \<open>The particle set\<close>

text \<open>The loop of \<open>update\<close> over the particles; an exception ends it.\<close>

fun updateLoop ::
  "(real \<Rightarrow> real \<Rightarrow> real \<Rightarrow> color) \<Rightarrow> thermal_system \<Rightarrow> real \<Rightarrow> nat list \<Rightarrow> particle_system
     \<Rightarrow> particle_system option" where
  "updateLoop setHSL ts deltaTime [] s = Some s"
| "updateLoop setHSL ts deltaTime (i # rest) s =
     (case updateParticle setHSL ts i deltaTime s of
        None \<Rightarrow> None
      | Some s' \<Rightarrow> updateLoop setHSL ts deltaTime rest s')"

definition update ::
  "(real \<Rightarrow> real \<Rightarrow> real \<Rightarrow> color) \<Rightarrow> thermal_system \<Rightarrow> real \<Rightarrow> particle_system
     \<Rightarrow> particle_system option" where
  "update setHSL ts deltaTime s =
     (if \<not> isActive s then Some s
      else let speedMultiplier = particleSpeed s
           in updateLoop setHSL ts (deltaTime * speedMultiplier) [0..<maxParticles s] s)"

definition start :: "particle_system \<Rightarrow> particle_system" where
  "start s = s\<lparr>isActive := True\<rparr>"

definition pause :: "particle_system \<Rightarrow> particle_system" where
  "pause s = s\<lparr>isActive := False\<rparr>"

definition reset ::
  "(real \<Rightarrow> real \<Rightarrow> real \<Rightarrow> color) \<Rightarrow> thermal_system \<Rightarrow> particle_system \<Rightarrow> particle_system" where
  "reset setHSL ts s =
     fold (\<lambda>i. initializeParticle setHSL ts i) [0..<maxParticles (pause s)] (pause s)"

definition setSpeed :: "real \<Rightarrow> particle_system \<Rightarrow> particle_system" where
  "setSpeed speed s = s\<lparr>particleSpeed := Math_max 0.1 (Math_min 3 speed)\<rparr>"

text \<open>
  \<open>setParticleCount\<close> clamps the count, stores it, and calls \<open>dispose\<close> (scene objects
  only) and \<open>init\<close>, which is \<open>createParticleSystem\<close>.
\<close>

definition setParticleCount ::
  "(real \<Rightarrow> real \<Rightarrow> real \<Rightarrow> color) \<Rightarrow> thermal_system \<Rightarrow> int \<Rightarrow> particle_system \<Rightarrow> particle_system" where
  "setParticleCount setHSL ts count s =
     (let newCount = max 100 (min 2000 count)
      in createParticleSystem setHSL ts (s\<lparr>maxParticles := nat newCount\<rparr>))"

text \<open>
  The buffers have the size of the particle count and every particle has a velocity.
  The constructor establishes this and every operation preserves it.
\<close>

definition wf_particles :: "particle_system \<Rightarrow> bool" where
  "wf_particles s \<longleftrightarrow>
     length (positions s) = maxParticles s * 3 \<and>
     length (colors s) = maxParticles s * 3 \<and>
     length (sizes s) = maxParticles s \<and>
     (\<forall>i < maxParticles s. array_get (velocities s) i \<noteq> None)"

subsection \<open>Positions, the domain and the speed limit\<close>

text \<open>
  The position of particle \<open>i\<close> in the buffer, the boundary condition of the
  specification (\<open>|x| > 2000\<close> or \<open>y < 0\<close> or \<open>y > 2000\<close> or \<open>|z| > 500\<close>), the domain box,
  and the speed limit of one particle and of the whole set.
\<close>

definition particle_position :: "particle_system \<Rightarrow> nat \<Rightarrow> real \<times> real \<times> real" where
  "particle_position s i = (positions s ! (i * 3), positions s ! (i * 3 + 1), positions s ! (i * 3 + 2))"

definition out_of_domain :: "real \<times> real \<times> real \<Rightarrow> bool" where
  "out_of_domain p \<longleftrightarrow> (case p of (x, y, z) \<Rightarrow> \<bar>x\<bar> > 2000 \<or> y < 0 \<or> y > 2000 \<or> \<bar>z\<bar> > 500)"

definition in_domain :: "real \<times> real \<times> real \<Rightarrow> bool" where
  "in_domain p \<longleftrightarrow>
     (case p of (x, y, z) \<Rightarrow> -2000 \<le> x \<and> x \<le> 2000 \<and> 0 \<le> y \<and> y \<le> 2000 \<and> -500 \<le> z \<and> z \<le> 500)"

definition speed_ok :: "particle_system \<Rightarrow> nat \<Rightarrow> bool" where
  "speed_ok s i \<longleftrightarrow> (case array_get (velocities s) i of None \<Rightarrow> False | Some v \<Rightarrow> vec_length v \<le> 20)"

text \<open>\<open>Math.random\<close> returns numbers in \<open>[0, 1)\<close>.\<close>

definition unit_interval_stream :: "real stream \<Rightarrow> bool" where
  "unit_interval_stream r \<longleftrightarrow> (\<forall>u \<in> sset r. 0 \<le> u \<and> u < 1)"

definition all_speeds_ok :: "particle_system \<Rightarrow> bool" where
  "all_speeds_ok s \<longleftrightarrow> (\<forall>i < maxParticles s. speed_ok s i)"

subsection \<open>Example particle sets\<close>

text \<open>
  A one-particle set just below the top of the domain, moving upwards at speed 20, with a
  random stream that always yields \<open>1/2\<close>, and a stand-in for \<open>setHSL\<close>.
\<close>

definition example_color :: "real \<Rightarrow> real \<Rightarrow> real \<Rightarrow> color" where
  "example_color h s l = (l, l, l)"

definition example_particles :: particle_system where
  "example_particles =
     \<lparr>maxParticles = 1, particleSize = 5, particleSpeed = 1, positions = [0, 1990, 0],
      colors = [0, 0, 0], sizes = [5], velocities = [Some \<lparr>vx = 0, vy = 20, vz = 0\<rparr>],
      isActive = True, random = sconst (1 / 2)\<rparr>"

text \<open>The default grid with a base temperature of 30 instead of 20.\<close>

definition warm_params :: thermal_params where
  "warm_params = \<lparr>gridSize = 50, heightLevels = 20,
     heatSourcePos = \<lparr>pos_x = -800, pos_z = 0\<rparr>,
     coldSourcePos = \<lparr>pos_x = 800, pos_z = 0\<rparr>, baseTemperature = 30\<rparr>"

text \<open>A set of 1000 particles, every one of them moving with velocity \<open>(1, 0, 0)\<close>.\<close>

definition resize_example :: particle_system where
  "resize_example =
     \<lparr>maxParticles = 1000, particleSize = 5, particleSpeed = 1, positions = replicate 3000 0,
      colors = replicate 3000 0, sizes = replicate 1000 5,
      velocities = replicate 1000 (Some \<lparr>vx = 1, vy = 0, vz = 0\<rparr>),
      isActive = True, random = sconst (1 / 2)\<rparr>"

text \<open>A one-particle set at rest at the origin.\<close>

definition still_particle :: particle_system where
  "still_particle =
     \<lparr>maxParticles = 1, particleSize = 5, particleSpeed = 1, positions = [0, 0, 0],
      colors = [0, 0, 0], sizes = [5], velocities = [Some \<lparr>vx = 0, vy = 0, vz = 0\<rparr>],
      isActive = True, random = sconst (1 / 2)\<rparr>"

section \<open>Properties of the field update and the point queries\<close>

subsection \<open>Cells of a field\<close>

lemma Math_pow_2: "Math_pow b 2 = b\<^sup>2"
  by (simp add: Math_pow_def)

lemma dims_ok_set_cell:
  assumes d: "dims_ok H G f"
  shows "dims_ok H G (set_cell f h x z v)"
proof (cases "h < length f")
  case False
  with d show ?thesis by (simp add: set_cell_def list_update_beyond)
next
  case True
  show ?thesis
  proof (cases "x < G")
    case False
    with d True show ?thesis by (simp add: set_cell_def dims_ok_def list_update_beyond)
  next
    case x: True
    from d True x show ?thesis
      unfolding dims_ok_def set_cell_def
      by (auto simp: nth_list_update)
  qed
qed

lemma cell_set_cell:
  "dims_ok H G f \<Longrightarrow> h < H \<Longrightarrow> x < G \<Longrightarrow> z < G \<Longrightarrow> h' < H \<Longrightarrow> x' < G \<Longrightarrow> z' < G \<Longrightarrow>
   cell (set_cell f h x z v) h' x' z' = (if h' = h \<and> x' = x \<and> z' = z then v else cell f h' x' z')"
  by (auto simp: dims_ok_def set_cell_def cell_def nth_list_update)

lemma fold_product:
  "fold (\<lambda>x. fold (\<lambda>z. F x z) zs) xs = fold (\<lambda>(x, z). F x z) (List.product xs zs)"
  by (induction xs) (simp_all add: fold_map comp_def)

lemma fold_nested_flat:
  "fold (\<lambda>h. fold (\<lambda>x. fold (\<lambda>z. F h x z) zs) xs) hs =
   fold (\<lambda>(h, x, z). F h x z) (List.product hs (List.product xs zs))"
  by (simp add: fold_product case_prod_unfold)

subsection \<open>One cell of each pass\<close>

lemma spec_temperature_cong:
  "same_config s s' \<Longrightarrow> spec_temperature s' h x z t = spec_temperature s h x z t"
  by (simp add: same_config_def spec_temperature_def Let_def)

lemma calculateBasePressure_spec: "calculateBasePressure height = spec_baseline height"
  by (simp add: calculateBasePressure_def spec_baseline_def Math_pow_def)

lemma temperatureCell_frame:
  "same_config s (temperatureCell h x z s) \<and>
   pressureField (temperatureCell h x z s) = pressureField s \<and>
   densityField (temperatureCell h x z s) = densityField s"
  by (simp add: temperatureCell_def same_config_def Let_def)

lemma temperatureCell_dims:
  "dims_ok H G (temperatureField s) \<Longrightarrow> dims_ok H G (temperatureField (temperatureCell h x z s))"
  by (simp add: temperatureCell_def Let_def dims_ok_set_cell)

lemma temperatureCell_cell:
  assumes d: "dims_ok (heightLevels (params s)) (gridSize (params s)) (temperatureField s)"
    and r: "h < heightLevels (params s)" "x < gridSize (params s)" "z < gridSize (params s)"
    and r': "h' < heightLevels (params s)" "x' < gridSize (params s)" "z' < gridSize (params s)"
  shows "cell (temperatureField (temperatureCell h x z s)) h' x' z' =
     (if h' = h \<and> x' = x \<and> z' = z then spec_temperature s h x z (cell (temperatureField s) h x z)
      else cell (temperatureField s) h' x' z')"
  using r r' 
  by (simp add: temperatureCell_def Let_def cell_set_cell [OF dims_ok_set_cell [OF dims_ok_set_cell [OF d]]]
      cell_set_cell [OF dims_ok_set_cell [OF d]] cell_set_cell [OF d]
      spec_temperature_def spec_distance_def worldX_def worldZ_def levelHeight_def Math_pow_2)

subsection \<open>The two passes over the grid\<close>

text \<open>
  Each pass visits every cell of the grid once and its step for a cell reads and
  writes that cell only, so after the pass every cell holds the result of its own step.
\<close>

lemma same_config_refl: "same_config s s"
  by (simp add: same_config_def)

lemma same_config_trans: "same_config s s1 \<Longrightarrow> same_config s1 s2 \<Longrightarrow> same_config s s2"
  by (simp add: same_config_def)

lemma temperature_fold:
  assumes "dims_ok (heightLevels (params s)) (gridSize (params s)) (temperatureField s)"
    and "distinct ks" and "\<forall>k \<in> set ks. in_grid (params s) k"
  shows "same_config s (fold (\<lambda>(h, x, z). temperatureCell h x z) ks s) \<and>
     pressureField (fold (\<lambda>(h, x, z). temperatureCell h x z) ks s) = pressureField s \<and>
     densityField (fold (\<lambda>(h, x, z). temperatureCell h x z) ks s) = densityField s \<and>
     dims_ok (heightLevels (params s)) (gridSize (params s))
       (temperatureField (fold (\<lambda>(h, x, z). temperatureCell h x z) ks s)) \<and>
     (\<forall>h x z. in_grid (params s) (h, x, z) \<longrightarrow>
        cell (temperatureField (fold (\<lambda>(h, x, z). temperatureCell h x z) ks s)) h x z =
          (if (h, x, z) \<in> set ks then spec_temperature s h x z (cell (temperatureField s) h x z)
           else cell (temperatureField s) h x z))"
  using assms
proof (induction ks arbitrary: s)
  case Nil
  then show ?case by (simp add: same_config_refl)
next
  case (Cons k ks)
  obtain h x z where k: "k = (h, x, z)" by (cases k) auto
  let ?s1 = "temperatureCell h x z s"
  have fr: "same_config s ?s1" "pressureField ?s1 = pressureField s"
    "densityField ?s1 = densityField s"
    using temperatureCell_frame [of s h x z] by simp_all
  have p1: "params ?s1 = params s" using fr(1) by (simp add: same_config_def)
  have kin: "h < heightLevels (params s)" "x < gridSize (params s)" "z < gridSize (params s)"
    using Cons.prems(3) k by (simp_all add: in_grid_def)
  have d1: "dims_ok (heightLevels (params ?s1)) (gridSize (params ?s1)) (temperatureField ?s1)"
    using temperatureCell_dims [OF Cons.prems(1)] p1 by simp
  have ih: "same_config ?s1 (fold (\<lambda>(h, x, z). temperatureCell h x z) ks ?s1) \<and>
     pressureField (fold (\<lambda>(h, x, z). temperatureCell h x z) ks ?s1) = pressureField ?s1 \<and>
     densityField (fold (\<lambda>(h, x, z). temperatureCell h x z) ks ?s1) = densityField ?s1 \<and>
     dims_ok (heightLevels (params ?s1)) (gridSize (params ?s1))
       (temperatureField (fold (\<lambda>(h, x, z). temperatureCell h x z) ks ?s1)) \<and>
     (\<forall>h' x' z'. in_grid (params ?s1) (h', x', z') \<longrightarrow>
        cell (temperatureField (fold (\<lambda>(h, x, z). temperatureCell h x z) ks ?s1)) h' x' z' =
          (if (h', x', z') \<in> set ks
           then spec_temperature ?s1 h' x' z' (cell (temperatureField ?s1) h' x' z')
           else cell (temperatureField ?s1) h' x' z'))"
    using Cons.IH [OF d1] Cons.prems(2,3) p1 by simp
  have nk: "(h, x, z) \<notin> set ks" using Cons.prems(2) k by simp
  have cells: "\<And>h' x' z'. in_grid (params s) (h', x', z') \<Longrightarrow>
      cell (temperatureField ?s1) h' x' z' =
        (if h' = h \<and> x' = x \<and> z' = z then spec_temperature s h x z (cell (temperatureField s) h x z)
         else cell (temperatureField s) h' x' z')"
    using temperatureCell_cell [OF Cons.prems(1) kin] by (simp add: in_grid_def)
  have fold_eq: "fold (\<lambda>(h, x, z). temperatureCell h x z) (k # ks) s =
      fold (\<lambda>(h, x, z). temperatureCell h x z) ks ?s1"
    by (simp add: k)
  let ?r = "fold (\<lambda>(h, x, z). temperatureCell h x z) ks ?s1"
  have c1: "same_config s ?r"
    using ih fr(1) by (blast intro: same_config_trans)
  have c2: "pressureField ?r = pressureField s" "densityField ?r = densityField s"
    using ih fr by simp_all
  have c3: "dims_ok (heightLevels (params s)) (gridSize (params s)) (temperatureField ?r)"
    using ih p1 by simp
  have c4: "cell (temperatureField ?r) h' x' z' =
          (if (h', x', z') \<in> set (k # ks)
           then spec_temperature s h' x' z' (cell (temperatureField s) h' x' z')
           else cell (temperatureField s) h' x' z')"
    if g: "in_grid (params s) (h', x', z')" for h' x' z'
  proof -
    have g1: "in_grid (params ?s1) (h', x', z')" using g p1 by simp
    have r: "cell (temperatureField ?r) h' x' z' =
          (if (h', x', z') \<in> set ks
           then spec_temperature s h' x' z' (cell (temperatureField ?s1) h' x' z')
           else cell (temperatureField ?s1) h' x' z')"
      using ih g1 spec_temperature_cong [OF fr(1)] by simp
    show ?thesis
    proof (cases "(h', x', z') = (h, x, z)")
      case True
      then have "cell (temperatureField ?r) h' x' z' = cell (temperatureField ?s1) h' x' z'"
        using r nk by simp
      also have "\<dots> = spec_temperature s h x z (cell (temperatureField s) h x z)"
        using cells [OF g] True by simp
      finally show ?thesis using True k by simp
    next
      case False
      then have "cell (temperatureField ?s1) h' x' z' = cell (temperatureField s) h' x' z'"
        using cells [OF g] by auto
      then show ?thesis using r False k by auto
    qed
  qed
  show ?case
    unfolding fold_eq using c1 c2 c3 c4 by blast
qed

lemma pressureCell_frame:
  "same_config s (pressureCell h x z s) \<and>
   temperatureField (pressureCell h x z s) = temperatureField s"
  by (simp add: pressureCell_def same_config_def Let_def)

lemma pressureCell_dims:
  "dims_ok H G (pressureField s) \<Longrightarrow> dims_ok H G (pressureField (pressureCell h x z s))"
  "dims_ok H G (densityField s) \<Longrightarrow> dims_ok H G (densityField (pressureCell h x z s))"
  by (simp_all add: pressureCell_def Let_def dims_ok_set_cell)

lemma pressureCell_cell:
  assumes d: "dims_ok (heightLevels (params s)) (gridSize (params s)) (pressureField s)"
             "dims_ok (heightLevels (params s)) (gridSize (params s)) (densityField s)"
    and r: "in_grid (params s) (h, x, z)" and r': "in_grid (params s) (h', x', z')"
  shows "cell (pressureField (pressureCell h x z s)) h' x' z' =
     (if (h', x', z') = (h, x, z) then spec_pressure (params s) h (cell (temperatureField s) h x z)
      else cell (pressureField s) h' x' z')"
    and "cell (densityField (pressureCell h x z s)) h' x' z' =
     (if (h', x', z') = (h, x, z)
      then calculateDensity (spec_pressure (params s) h (cell (temperatureField s) h x z))
             (cell (temperatureField s) h x z)
      else cell (densityField s) h' x' z')"
  using r r'
  by (simp_all add: pressureCell_def Let_def in_grid_def cell_set_cell [OF d(1)] cell_set_cell [OF d(2)]
      spec_pressure_def levelHeight_def calculateBasePressure_spec)

lemma pressure_fold:
  assumes "dims_ok (heightLevels (params s)) (gridSize (params s)) (pressureField s)"
    and "dims_ok (heightLevels (params s)) (gridSize (params s)) (densityField s)"
    and "distinct ks" and "\<forall>k \<in> set ks. in_grid (params s) k"
  shows "same_config s (fold (\<lambda>(h, x, z). pressureCell h x z) ks s) \<and>
     temperatureField (fold (\<lambda>(h, x, z). pressureCell h x z) ks s) = temperatureField s \<and>
     dims_ok (heightLevels (params s)) (gridSize (params s))
       (pressureField (fold (\<lambda>(h, x, z). pressureCell h x z) ks s)) \<and>
     dims_ok (heightLevels (params s)) (gridSize (params s))
       (densityField (fold (\<lambda>(h, x, z). pressureCell h x z) ks s)) \<and>
     (\<forall>h x z. in_grid (params s) (h, x, z) \<longrightarrow>
        cell (pressureField (fold (\<lambda>(h, x, z). pressureCell h x z) ks s)) h x z =
          (if (h, x, z) \<in> set ks
           then spec_pressure (params s) h (cell (temperatureField s) h x z)
           else cell (pressureField s) h x z) \<and>
        cell (densityField (fold (\<lambda>(h, x, z). pressureCell h x z) ks s)) h x z =
          (if (h, x, z) \<in> set ks
           then calculateDensity (spec_pressure (params s) h (cell (temperatureField s) h x z))
                  (cell (temperatureField s) h x z)
           else cell (densityField s) h x z))"
  using assms
proof (induction ks arbitrary: s)
  case Nil
  then show ?case by (simp add: same_config_refl)
next
  case (Cons k ks)
  obtain h x z where k: "k = (h, x, z)" by (cases k) auto
  let ?s1 = "pressureCell h x z s"
  let ?r = "fold (\<lambda>(h, x, z). pressureCell h x z) ks ?s1"
  have fr: "same_config s ?s1" "temperatureField ?s1 = temperatureField s"
    using pressureCell_frame [of s h x z] by simp_all
  have p1: "params ?s1 = params s" using fr(1) by (simp add: same_config_def)
  have kin: "in_grid (params s) (h, x, z)" using Cons.prems(4) k by simp
  have d1: "dims_ok (heightLevels (params ?s1)) (gridSize (params ?s1)) (pressureField ?s1)"
    "dims_ok (heightLevels (params ?s1)) (gridSize (params ?s1)) (densityField ?s1)"
    using pressureCell_dims(1) [OF Cons.prems(1)] pressureCell_dims(2) [OF Cons.prems(2)] p1
    by simp_all
  have ih: "same_config ?s1 ?r \<and> temperatureField ?r = temperatureField ?s1 \<and>
     dims_ok (heightLevels (params ?s1)) (gridSize (params ?s1)) (pressureField ?r) \<and>
     dims_ok (heightLevels (params ?s1)) (gridSize (params ?s1)) (densityField ?r) \<and>
     (\<forall>h' x' z'. in_grid (params ?s1) (h', x', z') \<longrightarrow>
        cell (pressureField ?r) h' x' z' =
          (if (h', x', z') \<in> set ks
           then spec_pressure (params ?s1) h' (cell (temperatureField ?s1) h' x' z')
           else cell (pressureField ?s1) h' x' z') \<and>
        cell (densityField ?r) h' x' z' =
          (if (h', x', z') \<in> set ks
           then calculateDensity (spec_pressure (params ?s1) h' (cell (temperatureField ?s1) h' x' z'))
                  (cell (temperatureField ?s1) h' x' z')
           else cell (densityField ?s1) h' x' z'))"
    using Cons.IH [OF d1] Cons.prems(3,4) p1 by simp
  have nk: "(h, x, z) \<notin> set ks" using Cons.prems(3) k by simp
  have fold_eq: "fold (\<lambda>(h, x, z). pressureCell h x z) (k # ks) s = ?r"
    by (simp add: k)
  have c1: "same_config s ?r"
    using ih fr(1) by (blast intro: same_config_trans)
  have c2: "temperatureField ?r = temperatureField s"
    using ih fr by simp
  have c3: "dims_ok (heightLevels (params s)) (gridSize (params s)) (pressureField ?r)"
    "dims_ok (heightLevels (params s)) (gridSize (params s)) (densityField ?r)"
    using ih p1 by simp_all
  have c4: "cell (pressureField ?r) h' x' z' =
          (if (h', x', z') \<in> set (k # ks)
           then spec_pressure (params s) h' (cell (temperatureField s) h' x' z')
           else cell (pressureField s) h' x' z') \<and>
        cell (densityField ?r) h' x' z' =
          (if (h', x', z') \<in> set (k # ks)
           then calculateDensity (spec_pressure (params s) h' (cell (temperatureField s) h' x' z'))
                  (cell (temperatureField s) h' x' z')
           else cell (densityField s) h' x' z')"
    if g: "in_grid (params s) (h', x', z')" for h' x' z'
  proof -
    have g1: "in_grid (params ?s1) (h', x', z')" using g p1 by simp
    have r: "cell (pressureField ?r) h' x' z' =
          (if (h', x', z') \<in> set ks
           then spec_pressure (params s) h' (cell (temperatureField s) h' x' z')
           else cell (pressureField ?s1) h' x' z')"
       "cell (densityField ?r) h' x' z' =
          (if (h', x', z') \<in> set ks
           then calculateDensity (spec_pressure (params s) h' (cell (temperatureField s) h' x' z'))
                  (cell (temperatureField s) h' x' z')
           else cell (densityField ?s1) h' x' z')"
      using ih g1 p1 fr(2) by simp_all
    note cc = pressureCell_cell [OF Cons.prems(1,2) kin g]
    show ?thesis
    proof (cases "(h', x', z') = (h, x, z)")
      case True
      then show ?thesis using r nk cc k by simp
    next
      case False
      then show ?thesis using r cc k by auto
    qed
  qed
  show ?case
    unfolding fold_eq using c1 c2 c3 c4 by blast
qed

lemma distinct_grid_cells: "distinct (grid_cells p)"
  by (simp add: grid_cells_def distinct_product)

lemma set_grid_cells: "k \<in> set (grid_cells p) \<longleftrightarrow> in_grid p k"
  by (cases k) (auto simp: grid_cells_def in_grid_def)

lemma updateTemperatureField_flat:
  "updateTemperatureField s = fold (\<lambda>(h, x, z). temperatureCell h x z) (grid_cells (params s)) s"
  by (simp add: updateTemperatureField_def Let_def fold_nested_flat grid_cells_def)

lemma updatePressureField_flat:
  "updatePressureField s = fold (\<lambda>(h, x, z). pressureCell h x z) (grid_cells (params s)) s"
  by (simp add: updatePressureField_def Let_def fold_nested_flat grid_cells_def)

lemma updateTemperatureField_props:
  assumes "wf_fields s"
  shows "same_config s (updateTemperatureField s)"
    and "wf_fields (updateTemperatureField s)"
    and "in_grid (params s) (h, x, z) \<Longrightarrow>
      cell (temperatureField (updateTemperatureField s)) h x z =
        spec_temperature s h x z (cell (temperatureField s) h x z)"
proof -
  have d: "dims_ok (heightLevels (params s)) (gridSize (params s)) (temperatureField s)"
    using assms by (simp add: wf_fields_def)
  have a: "\<forall>k \<in> set (grid_cells (params s)). in_grid (params s) k"
    by (simp add: set_grid_cells)
  note t = temperature_fold [OF d distinct_grid_cells a, folded updateTemperatureField_flat]
  show c: "same_config s (updateTemperatureField s)" using t by simp
  show "wf_fields (updateTemperatureField s)"
    using t assms c by (simp add: wf_fields_def same_config_def)
  show "cell (temperatureField (updateTemperatureField s)) h x z =
        spec_temperature s h x z (cell (temperatureField s) h x z)"
    if "in_grid (params s) (h, x, z)"
    using t that by (simp add: set_grid_cells)
qed

lemma updatePressureField_props:
  assumes "wf_fields s"
  shows "same_config s (updatePressureField s)"
    and "wf_fields (updatePressureField s)"
    and "temperatureField (updatePressureField s) = temperatureField s"
    and "in_grid (params s) (h, x, z) \<Longrightarrow>
      cell (pressureField (updatePressureField s)) h x z =
        spec_pressure (params s) h (cell (temperatureField s) h x z)"
    and "in_grid (params s) (h, x, z) \<Longrightarrow>
      cell (densityField (updatePressureField s)) h x z =
        calculateDensity (spec_pressure (params s) h (cell (temperatureField s) h x z))
          (cell (temperatureField s) h x z)"
proof -
  have d: "dims_ok (heightLevels (params s)) (gridSize (params s)) (pressureField s)"
    "dims_ok (heightLevels (params s)) (gridSize (params s)) (densityField s)"
    using assms by (simp_all add: wf_fields_def)
  have a: "\<forall>k \<in> set (grid_cells (params s)). in_grid (params s) k"
    by (simp add: set_grid_cells)
  note t = pressure_fold [OF d distinct_grid_cells a, folded updatePressureField_flat]
  show c: "same_config s (updatePressureField s)" using t by simp
  show "temperatureField (updatePressureField s) = temperatureField s" using t by simp
  then show "wf_fields (updatePressureField s)"
    using t assms c by (simp add: wf_fields_def same_config_def)
  show "cell (pressureField (updatePressureField s)) h x z =
        spec_pressure (params s) h (cell (temperatureField s) h x z)"
    if "in_grid (params s) (h, x, z)"
    using t that by (simp add: set_grid_cells)
  show "cell (densityField (updatePressureField s)) h x z =
        calculateDensity (spec_pressure (params s) h (cell (temperatureField s) h x z))
          (cell (temperatureField s) h x z)"
    if "in_grid (params s) (h, x, z)"
    using t that by (simp add: set_grid_cells)
qed

lemma updateFields_config: "wf_fields s \<Longrightarrow> same_config s (updateFields dt s)"
  unfolding updateFields_def
  by (blast intro: same_config_trans updateTemperatureField_props(1,2) updatePressureField_props(1))

lemma updateFields_wf: "wf_fields s \<Longrightarrow> wf_fields (updateFields dt s)"
  unfolding updateFields_def
  by (blast intro: updateTemperatureField_props(2) updatePressureField_props(2))

lemma updateFields_temperature:
  "wf_fields s \<Longrightarrow> temperatureField (updateFields dt s) = temperatureField (updateTemperatureField s)"
  unfolding updateFields_def
  by (simp add: updateTemperatureField_props(2) updatePressureField_props(3))

lemma updateFields_cells:
  assumes w: "wf_fields s" and g: "in_grid (params s) (h, x, z)"
  shows "cell (temperatureField (updateFields dt s)) h x z =
           spec_temperature s h x z (cell (temperatureField s) h x z)"
    and "cell (pressureField (updateFields dt s)) h x z =
           spec_pressure (params s) h (cell (temperatureField (updateFields dt s)) h x z)"
    and "cell (densityField (updateFields dt s)) h x z =
           calculateDensity (cell (pressureField (updateFields dt s)) h x z)
             (cell (temperatureField (updateFields dt s)) h x z)"
proof -
  let ?s1 = "updateTemperatureField s"
  have w1: "wf_fields ?s1" using w by (rule updateTemperatureField_props(2))
  have p1: "params ?s1 = params s"
    using updateTemperatureField_props(1) [OF w] by (simp add: same_config_def)
  have g1: "in_grid (params ?s1) (h, x, z)" using g p1 by simp
  show t: "cell (temperatureField (updateFields dt s)) h x z =
           spec_temperature s h x z (cell (temperatureField s) h x z)"
    using updateFields_temperature [OF w] updateTemperatureField_props(3) [OF w g] by simp
  show p: "cell (pressureField (updateFields dt s)) h x z =
           spec_pressure (params s) h (cell (temperatureField (updateFields dt s)) h x z)"
    using updatePressureField_props(4) [OF w1 g1] updateFields_temperature [OF w] p1
    by (simp add: updateFields_def)
  show "cell (densityField (updateFields dt s)) h x z =
           calculateDensity (cell (pressureField (updateFields dt s)) h x z)
             (cell (temperatureField (updateFields dt s)) h x z)"
    using updatePressureField_props(5) [OF w1 g1] updatePressureField_props(4) [OF w1 g1]
      updatePressureField_props(3) [OF w1]
    by (simp add: updateFields_def)
qed

subsection \<open>Initialisation\<close>

lemma initializeFields_wf: "wf_fields (initializeFields s)"
  by (simp add: initializeFields_def wf_fields_def dims_ok_def Let_def)

lemma initializeFields_config: "same_config s (initializeFields s)"
  by (simp add: initializeFields_def same_config_def Let_def)

lemma initializeFields_cells:
  assumes "in_grid (params s) (h, x, z)"
  shows "cell (temperatureField (initializeFields s)) h x z =
           baseTemperature (params s) - levelHeight (params s) h * 0.0065"
    and "cell (pressureField (initializeFields s)) h x z =
           calculateBasePressure (levelHeight (params s) h)"
    and "cell (densityField (initializeFields s)) h x z =
           calculateDensity (cell (pressureField (initializeFields s)) h x z)
             (cell (temperatureField (initializeFields s)) h x z)"
  using assms
  by (simp_all add: initializeFields_def in_grid_def cell_def Let_def levelHeight_def)

subsection \<open>The density invariant and the cell transformation\<close>

lemma calculateDensity_eq: "calculateDensity p t = p / (287.05 * (t + 273.15))"
  by (simp add: calculateDensity_def)

text \<open>
  C1. For every cell \<open>(h, x, z)\<close> of the grid, after field initialisation and after every
  call of \<open>updateFields\<close>, the stored density equals
  \<open>pressure / (287.05 * (temperature + 273.15))\<close> for the stored pressure and temperature
  of that cell. (The fields of a state have the dimensions of its parameters:
  \<open>initializeFields_wf\<close>, \<open>updateFields_wf\<close>.)
\<close>

theorem density_law_maintained:
  assumes "h < heightLevels (params s)" "x < gridSize (params s)" "z < gridSize (params s)"
  shows "density_law (initializeFields s) h x z \<and>
         (wf_fields s \<longrightarrow> density_law (updateFields dt s) h x z)"
proof -
  have g: "in_grid (params s) (h, x, z)" using assms by (simp add: in_grid_def)
  have "density_law (initializeFields s) h x z"
    unfolding density_law_def initializeFields_cells(3) [OF g] by (rule calculateDensity_eq)
  moreover have "density_law (updateFields dt s) h x z" if "wf_fields s"
    unfolding density_law_def updateFields_cells(3) [OF that g] by (rule calculateDensity_eq)
  ultimately show ?thesis by blast
qed

lemma new_ThermalSystem_params: "params (new_ThermalSystem p) = p"
  by (simp add: new_ThermalSystem_def initializeFields_def Let_def)

lemma new_ThermalSystem_wf: "wf_fields (new_ThermalSystem p)"
  by (simp add: new_ThermalSystem_def initializeFields_wf)

text \<open>The invariant at cell \<open>(1, 1, 1)\<close> of the two-by-two grid, initially and after one update.\<close>

theorem density_law_maintained_witness:
  "(1::nat) < heightLevels (params (new_ThermalSystem tiny_params)) \<and>
   (1::nat) < gridSize (params (new_ThermalSystem tiny_params)) \<and>
   wf_fields (new_ThermalSystem tiny_params) \<and>
   density_law (initializeFields (new_ThermalSystem tiny_params)) 1 1 1 \<and>
   density_law (updateFields 0.1 (new_ThermalSystem tiny_params)) 1 1 1"
proof -
  have a: "(1::nat) < heightLevels (params (new_ThermalSystem tiny_params))"
    "(1::nat) < gridSize (params (new_ThermalSystem tiny_params))"
    by (simp_all add: new_ThermalSystem_params tiny_params_def)
  show ?thesis
    using density_law_maintained [OF a(1) a(2) a(2), of "0.1"] a new_ThermalSystem_wf
    by simp
qed

text \<open>
  C2. One call of \<open>updateFields\<close> is the temperature pass over the whole grid followed by
  the pressure pass, which leaves the temperatures of the first pass as they are. For
  every cell the new temperature is the old one plus the heat term
  \<open>(1 - dist/800) * heatIntensity/100 * 0.1\<close> when the planar distance to the heat source
  is below 800, minus the same term for the cold source, minus \<open>height * 0.0065 * 0.01\<close>;
  the new pressure is \<open>baseline(height) * (1 - (T_ratio - 1) * 0.1)\<close> for the new
  temperature, and the new density is computed from the new pressure and temperature.
\<close>

theorem updateFields_cell_transform:
  assumes "wf_fields s"
    and "h < heightLevels (params s)" "x < gridSize (params s)" "z < gridSize (params s)"
  shows "updateFields dt s = updatePressureField (updateTemperatureField s) \<and>
     temperatureField (updateFields dt s) = temperatureField (updateTemperatureField s) \<and>
     cell (temperatureField (updateFields dt s)) h x z =
       spec_temperature s h x z (cell (temperatureField s) h x z) \<and>
     cell (pressureField (updateFields dt s)) h x z =
       spec_pressure (params s) h (cell (temperatureField (updateFields dt s)) h x z) \<and>
     cell (densityField (updateFields dt s)) h x z =
       spec_density (cell (pressureField (updateFields dt s)) h x z)
         (cell (temperatureField (updateFields dt s)) h x z)"
proof -
  have g: "in_grid (params s) (h, x, z)" using assms by (simp add: in_grid_def)
  show ?thesis
    using updateFields_cells [OF assms(1) g, of dt] updateFields_temperature [OF assms(1), of dt]
    by (simp add: updateFields_def spec_density_def calculateDensity_eq)
qed

subsection \<open>Repeated updates and the end-to-end scenario\<close>

lemma sqrt_less_800: "sqrt x < 800 \<longleftrightarrow> x < 640000"
  using real_sqrt_less_iff [of x 640000] real_sqrt_abs [of 800] by simp

lemma sqrt_160000: "sqrt 160000 = 400"
  using real_sqrt_abs [of 400] by simp

lemma spec_temperature_shift: "spec_temperature s h x z t = t + spec_temperature s h x z 0"
  by (simp add: spec_temperature_def Let_def)

lemma in_grid_same_config: "same_config s s' \<Longrightarrow> in_grid (params s') k = in_grid (params s) k"
  by (simp add: same_config_def)

lemma iterate_updateFields:
  assumes w: "wf_fields s" and g: "in_grid (params s) (h, x, z)"
  shows "wf_fields ((updateFields dt ^^ n) s) \<and> same_config s ((updateFields dt ^^ n) s) \<and>
     cell (temperatureField ((updateFields dt ^^ n) s)) h x z =
       cell (temperatureField s) h x z + real n * spec_temperature s h x z 0"
proof (induction n)
  case 0
  then show ?case using w by (simp add: same_config_refl)
next
  case (Suc n)
  let ?sn = "(updateFields dt ^^ n) s"
  have wn: "wf_fields ?sn" and cn: "same_config s ?sn" using Suc by simp_all
  have gn: "in_grid (params ?sn) (h, x, z)" using g in_grid_same_config [OF cn] by simp
  have "cell (temperatureField (updateFields dt ?sn)) h x z =
      spec_temperature ?sn h x z (cell (temperatureField ?sn) h x z)"
    by (rule updateFields_cells(1) [OF wn gn])
  also have "\<dots> = spec_temperature s h x z (cell (temperatureField ?sn) h x z)"
    by (rule spec_temperature_cong [OF cn])
  also have "\<dots> = cell (temperatureField ?sn) h x z + spec_temperature s h x z 0"
    by (rule spec_temperature_shift)
  finally have "cell (temperatureField (updateFields dt ?sn)) h x z =
      cell (temperatureField s) h x z + real (Suc n) * spec_temperature s h x z 0"
    using Suc by (simp add: algebra_simps)
  moreover have "wf_fields (updateFields dt ?sn)" by (rule updateFields_wf [OF wn])
  moreover have "same_config s (updateFields dt ?sn)"
    by (rule same_config_trans [OF cn updateFields_config [OF wn]])
  ultimately show ?case by simp
qed

lemma scenario_start_facts:
  "wf_fields scenario_start" "params scenario_start = scenario_params"
  "heatIntensity scenario_start = 100" "coldIntensity scenario_start = 0"
  "temperatureField scenario_start = temperatureField (new_ThermalSystem scenario_params)"
  using new_ThermalSystem_wf [of scenario_params]
  by (simp_all add: scenario_start_def setHeatIntensity_def setColdIntensity_def wf_fields_def
      new_ThermalSystem_params Math_max_def Math_min_def)

lemma scenario_in_grid:
  "in_grid (params scenario_start) (0, 3, 1)" "in_grid (params scenario_start) (0, 7, 1)"
  by (simp_all add: scenario_start_facts in_grid_def scenario_params_def)

lemma scenario_initial_cells:
  "cell (temperatureField scenario_start) 0 3 1 = 20"
  "cell (temperatureField scenario_start) 0 7 1 = 20"
proof -
  have g: "in_grid (params \<lparr>params = scenario_params, temperatureField = [], pressureField = [],
       densityField = [], heatIntensity = 80, coldIntensity = 60\<rparr>) (0, 3, 1)"
     "in_grid (params \<lparr>params = scenario_params, temperatureField = [], pressureField = [],
       densityField = [], heatIntensity = 80, coldIntensity = 60\<rparr>) (0, 7, 1)"
    by (simp_all add: in_grid_def scenario_params_def)
  show "cell (temperatureField scenario_start) 0 3 1 = 20"
    unfolding scenario_start_facts(5) new_ThermalSystem_def initializeFields_cells(1) [OF g(1)]
    by (simp add: levelHeight_def scenario_params_def)
  show "cell (temperatureField scenario_start) 0 7 1 = 20"
    unfolding scenario_start_facts(5) new_ThermalSystem_def initializeFields_cells(1) [OF g(2)]
    by (simp add: levelHeight_def scenario_params_def)
qed

lemma scenario_increments:
  "spec_temperature scenario_start 0 3 1 0 = 1 / 20"
  "spec_temperature scenario_start 0 7 1 0 = 0"
  by (simp_all add: spec_temperature_def spec_distance_def worldX_def worldZ_def levelHeight_def
      scenario_start_facts scenario_params_def Let_def sqrt_less_800 sqrt_160000)

lemma scenario_end_cells:
  "cell (temperatureField scenario_end) 0 3 1 = 25"
  "cell (temperatureField scenario_end) 0 7 1 = 20"
  "params scenario_end = scenario_params"
proof -
  note h = iterate_updateFields [OF scenario_start_facts(1) scenario_in_grid(1),
      where dt = "0.1" and n = 100, folded scenario_end_def]
  note c = iterate_updateFields [OF scenario_start_facts(1) scenario_in_grid(2),
      where dt = "0.1" and n = 100, folded scenario_end_def]
  have "cell (temperatureField scenario_end) 0 3 1 =
      cell (temperatureField scenario_start) 0 3 1 + real 100 * spec_temperature scenario_start 0 3 1 0"
    using h by blast
  then show "cell (temperatureField scenario_end) 0 3 1 = 25"
    unfolding scenario_initial_cells scenario_increments by simp
  have "cell (temperatureField scenario_end) 0 7 1 =
      cell (temperatureField scenario_start) 0 7 1 + real 100 * spec_temperature scenario_start 0 7 1 0"
    using c by blast
  then show "cell (temperatureField scenario_end) 0 7 1 = 20"
    unfolding scenario_initial_cells scenario_increments by simp
  show "params scenario_end = scenario_params"
    using h scenario_start_facts(2) by (simp add: same_config_def)
qed

lemma scenario_sample_cell:
  assumes "params s = scenario_params"
  shows "getTemperatureAt s (-800) 0 0 = cell (temperatureField s) 0 3 1"
    and "getTemperatureAt s 800 0 0 = cell (temperatureField s) 0 7 1"
  using assms by (simp_all add: getTemperatureAt_def Let_def scenario_params_def)

lemma scenario_samples:
  "getTemperatureAt scenario_start (-800) 0 0 = 20"
  "getTemperatureAt scenario_end (-800) 0 0 = 25"
  "getTemperatureAt scenario_end 800 0 0 = 20"
  using scenario_sample_cell [OF scenario_start_facts(2)] scenario_sample_cell [OF scenario_end_cells(3)]
    scenario_initial_cells scenario_end_cells(1,2)
  by simp_all

lemma setIntensity_wf:
  "wf_fields (setHeatIntensity v s) = wf_fields s"
  "wf_fields (setColdIntensity v s) = wf_fields s"
  by (simp_all add: setHeatIntensity_def setColdIntensity_def wf_fields_def)

text \<open>
  The cells whose centres, in the coordinates of the update pass, are the two sources
  themselves, \<open>(0, 3, 5)\<close> and \<open>(0, 7, 5)\<close>: after the scenario they hold 30 and 20.
\<close>

lemma scenario_source_cells:
  "worldX scenario_params 3 = -800" "worldZ scenario_params 5 = 0"
  "worldX scenario_params 7 = 800"
  "cell (temperatureField scenario_start) 0 3 5 = 20"
  "cell (temperatureField scenario_end) 0 3 5 = 30"
  "cell (temperatureField scenario_end) 0 7 5 = 20"
proof -
  let ?s0 = "\<lparr>params = scenario_params, temperatureField = [], pressureField = [],
       densityField = [], heatIntensity = 80, coldIntensity = 60\<rparr>"
  show "worldX scenario_params 3 = -800" "worldZ scenario_params 5 = 0"
    "worldX scenario_params 7 = 800"
    by (simp_all add: worldX_def worldZ_def scenario_params_def)
  have g: "in_grid (params scenario_start) (0, 3, 5)" "in_grid (params scenario_start) (0, 7, 5)"
    by (simp_all add: scenario_start_facts in_grid_def scenario_params_def)
  have g0: "in_grid (params ?s0) (0, 3, 5)" "in_grid (params ?s0) (0, 7, 5)"
    by (simp_all add: in_grid_def scenario_params_def)
  have i: "cell (temperatureField scenario_start) 0 3 5 = 20"
    "cell (temperatureField scenario_start) 0 7 5 = 20"
    unfolding scenario_start_facts(5) new_ThermalSystem_def initializeFields_cells(1) [OF g0(1)]
      initializeFields_cells(1) [OF g0(2)]
    by (simp_all add: levelHeight_def scenario_params_def)
  show "cell (temperatureField scenario_start) 0 3 5 = 20" by (rule i(1))
  have inc: "spec_temperature scenario_start 0 3 5 0 = 1 / 10"
    "spec_temperature scenario_start 0 7 5 0 = 0"
    by (simp_all add: spec_temperature_def spec_distance_def worldX_def worldZ_def levelHeight_def
        scenario_start_facts scenario_params_def Let_def sqrt_less_800)
  note h = iterate_updateFields [OF scenario_start_facts(1) g(1),
      where dt = "0.1" and n = 100, folded scenario_end_def]
  note c = iterate_updateFields [OF scenario_start_facts(1) g(2),
      where dt = "0.1" and n = 100, folded scenario_end_def]
  have "cell (temperatureField scenario_end) 0 3 5 =
      cell (temperatureField scenario_start) 0 3 5 + real 100 * spec_temperature scenario_start 0 3 5 0"
    using h by blast
  then show "cell (temperatureField scenario_end) 0 3 5 = 30"
    unfolding i inc by simp
  have "cell (temperatureField scenario_end) 0 7 5 =
      cell (temperatureField scenario_start) 0 7 5 + real 100 * spec_temperature scenario_start 0 7 5 0"
    using c by blast
  then show "cell (temperatureField scenario_end) 0 7 5 = 20"
    unfolding i inc by simp
qed

text \<open>
  One update of the scenario's start state at cell \<open>(0, 3, 1)\<close>, which lies at distance
  400 from the heat source: the temperature rises from 20 by \<open>0.5 * 100/100 * 0.1\<close>.
\<close>

theorem updateFields_cell_transform_witness:
  "wf_fields scenario_start \<and> (0::nat) < heightLevels (params scenario_start) \<and>
   (3::nat) < gridSize (params scenario_start) \<and> (1::nat) < gridSize (params scenario_start) \<and>
   cell (temperatureField (updateFields 0.1 scenario_start)) 0 3 1 = 20 + 1 / 20 \<and>
   cell (pressureField (updateFields 0.1 scenario_start)) 0 3 1 =
     spec_pressure scenario_params 0 (20 + 1 / 20) \<and>
   cell (densityField (updateFields 0.1 scenario_start)) 0 3 1 =
     spec_density (spec_pressure scenario_params 0 (20 + 1 / 20)) (20 + 1 / 20)"
proof -
  have r: "(0::nat) < heightLevels (params scenario_start)"
    "(3::nat) < gridSize (params scenario_start)" "(1::nat) < gridSize (params scenario_start)"
    by (simp_all add: scenario_start_facts scenario_params_def)
  have t: "spec_temperature scenario_start 0 3 1 (cell (temperatureField scenario_start) 0 3 1) =
      20 + 1 / 20"
    unfolding scenario_initial_cells spec_temperature_shift [of _ _ _ _ 20] scenario_increments
    by simp
  note u = updateFields_cell_transform [OF scenario_start_facts(1) r, of "0.1",
      unfolded t scenario_start_facts(2)]
  have T: "cell (temperatureField (updateFields 0.1 scenario_start)) 0 3 1 = 20 + 1 / 20"
    using u by blast
  have P: "cell (pressureField (updateFields 0.1 scenario_start)) 0 3 1 =
     spec_pressure scenario_params 0 (20 + 1 / 20)"
    using u unfolding T by blast
  have D: "cell (densityField (updateFields 0.1 scenario_start)) 0 3 1 =
     spec_density (spec_pressure scenario_params 0 (20 + 1 / 20)) (20 + 1 / 20)"
    using u unfolding T P by blast
  show ?thesis
    using T P D r scenario_start_facts(1) by blast
qed

text \<open>
  C4, as stated: after the 100 updates of the scenario the temperature of the cell
  nearest \<open>(-800, lowest altitude, 0)\<close> has strictly increased over its initial value and
  is lower than the temperature of the cell nearest \<open>(800, lowest altitude, 0)\<close>. This
  fails for the cells that the point query selects for the two coordinates, and also for
  the cells \<open>(0, 3, 5)\<close> and \<open>(0, 7, 5)\<close> that the update pass centres on the two sources.
\<close>

theorem scenario_heat_cell_not_lower:
  "\<not> (getTemperatureAt scenario_start (-800) 0 0 < getTemperatureAt scenario_end (-800) 0 0 \<and>
      getTemperatureAt scenario_end (-800) 0 0 < getTemperatureAt scenario_end 800 0 0) \<and>
   \<not> (cell (temperatureField scenario_start) 0 3 5 < cell (temperatureField scenario_end) 0 3 5 \<and>
      cell (temperatureField scenario_end) 0 3 5 < cell (temperatureField scenario_end) 0 7 5)"
  by (simp add: scenario_samples scenario_source_cells)

text \<open>
  C4, amended: after the 100 updates of the scenario the temperature of the cell
  nearest \<open>(-800, lowest altitude, 0)\<close> has strictly increased over its initial value and
  is higher than the temperature of the cell nearest \<open>(800, lowest altitude, 0)\<close>. This
  holds for the cells that the point query selects for the two coordinates, and for the
  cells \<open>(0, 3, 5)\<close> and \<open>(0, 7, 5)\<close> that the update pass centres on the two sources.
\<close>

theorem scenario_heat_cell_warmer:
  "(getTemperatureAt scenario_start (-800) 0 0 < getTemperatureAt scenario_end (-800) 0 0 \<and>
    getTemperatureAt scenario_end 800 0 0 < getTemperatureAt scenario_end (-800) 0 0) \<and>
   (cell (temperatureField scenario_start) 0 3 5 < cell (temperatureField scenario_end) 0 3 5 \<and>
    cell (temperatureField scenario_end) 0 7 5 < cell (temperatureField scenario_end) 0 3 5)"
  by (simp add: scenario_samples scenario_source_cells)

subsection \<open>The pressure query beyond the depth of the domain\<close>

lemma default_pressure_cell:
  "getPressureAt (new_ThermalSystem default_params) 0 100 600 =
     calculateBasePressure 100"
proof -
  let ?s0 = "\<lparr>params = default_params, temperatureField = [], pressureField = [],
       densityField = [], heatIntensity = 80, coldIntensity = 60\<rparr>"
  have g: "in_grid (params ?s0) (1, 25, 13)"
    by (simp add: in_grid_def default_params_def)
  have "getPressureAt (new_ThermalSystem default_params) 0 100 600 =
      cell (pressureField (new_ThermalSystem default_params)) 1 25 13"
    by (simp add: getPressureAt_def new_ThermalSystem_params Let_def default_params_def)
  also have "\<dots> = calculateBasePressure (levelHeight (params ?s0) 1)"
    unfolding new_ThermalSystem_def by (rule initializeFields_cells(2) [OF g])
  also have "levelHeight (params ?s0) 1 = 100"
    by (simp add: levelHeight_def default_params_def)
  finally show ?thesis .
qed

lemma calculateBasePressure_100: "calculateBasePressure 100 < 101325"
proof -
  have "(1 - 0.0065 * 100 / 288.15 :: real) powr 5.255 < 1 powr 5.255"
    by (rule powr_less_mono2) simp_all
  then show ?thesis
    by (simp add: calculateBasePressure_def Math_pow_def)
qed

text \<open>
  C3 says that a pressure query outside the box \<open>[-2000,2000] x [0,2000] x [-500,500]\<close>
  returns 101325. In the freshly constructed default system the query at
  \<open>(0, 100, 600)\<close>, where \<open>z\<close> is outside \<open>[-500, 500]\<close>, reads cell \<open>(1, 25, 13)\<close> of the
  pressure field, the base pressure at altitude 100, which is below 101325: the index
  along z is computed with the spacing of the x axis.
\<close>

theorem pressure_beyond_depth_not_sentinel:
  "\<bar>600::real\<bar> > 500 \<and>
   getPressureAt (new_ThermalSystem default_params) 0 100 600 = calculateBasePressure 100 \<and>
   getPressureAt (new_ThermalSystem default_params) 0 100 600 \<noteq> 101325"
  using default_pressure_cell calculateBasePressure_100 by simp

text \<open>
  On the default grid the sentinel is returned for every query with \<open>x\<close> outside
  \<open>[-2000, 2000]\<close>, with \<open>y\<close> outside \<open>[0, 2000]\<close>, with \<open>z < -500\<close> or with \<open>z \<ge> 3500\<close>.
\<close>

lemma default_grid_sentinel:
  assumes "params s = default_params"
    and "x < -2000 \<or> x > 2000 \<or> y < 0 \<or> y > 2000 \<or> z < -500 \<or> z \<ge> 3500"
  shows "getPressureAt s x y z = 101325"
proof -
  have "\<lfloor>(x + 2000) / 80\<rfloor> < 0" if "x < -2000"
    using that by (simp add: floor_less_iff)
  moreover have "\<lfloor>(x + 2000) / 80\<rfloor> \<ge> 50" if "x > 2000"
    using that by (simp add: le_floor_iff)
  moreover have "\<lfloor>y / 100\<rfloor> < 0" if "y < 0"
    using that by (simp add: floor_less_iff)
  moreover have "\<lfloor>y / 100\<rfloor> \<ge> 20" if "y > 2000"
    using that by (simp add: le_floor_iff)
  moreover have "\<lfloor>(z + 500) / 80\<rfloor> < 0" if "z < -500"
    using that by (simp add: floor_less_iff)
  moreover have "\<lfloor>(z + 500) / 80\<rfloor> \<ge> 50" if "z \<ge> 3500"
    using that by (simp add: le_floor_iff)
  ultimately show ?thesis
    using assms(2) by (auto simp: getPressureAt_def assms(1) default_params_def Let_def)
qed

subsection \<open>The wind vector and the time step\<close>

text \<open>
  C8. For every coordinate and every state of the grid, the wind vector at \<open>(x, y, z)\<close>
  has \<open>fx = -(P(x+50,y,z) - P(x,y,z))/50\<close>, \<open>fz = -(P(x,y,z+50) - P(x,y,z))/50\<close> and
  \<open>fy = (T(x,y,z) - T(x,y-100,z)) * 0.01\<close>, with \<open>P\<close> and \<open>T\<close> the point queries for
  pressure and temperature.
\<close>

theorem wind_vector_formula:
  "getWindVectorAt s x y z =
     \<lparr>vx = - (getPressureAt s (x + 50) y z - getPressureAt s x y z) / 50,
      vy = (getTemperatureAt s x y z - getTemperatureAt s x (y - 100) z) * 0.01,
      vz = - (getPressureAt s x y (z + 50) - getPressureAt s x y z) / 50\<rparr>"
  by (simp add: getWindVectorAt_def Let_def)

text \<open>
  C10. The field update does not depend on its \<open>dt\<close> argument: from the same state, two
  calls with different \<open>dt\<close> give the same state, hence the same temperature, pressure and
  density fields.
\<close>

theorem updateFields_dt_independent:
  "updateFields dt1 s = updateFields dt2 s"
  by (simp add: updateFields_def)

section \<open>Properties of the particle system\<close>

subsection \<open>The speed limit\<close>

lemma vec_length_zero: "vec_length \<lparr>vx = 0, vy = 0, vz = 0\<rparr> = 0"
  by (simp add: vec_length_def)

lemma vec_length_scaled: "vec_length (multiplyScalar v k) = \<bar>k\<bar> * vec_length v"
proof -
  have "vx v * k * (vx v * k) + vy v * k * (vy v * k) + vz v * k * (vz v * k) =
      k\<^sup>2 * (vx v * vx v + vy v * vy v + vz v * vz v)"
    by (simp add: algebra_simps power2_eq_square)
  then show ?thesis
    by (simp add: vec_length_def multiplyScalar_def real_sqrt_mult)
qed

lemma vec_length_clamped:
  assumes "vec_length v > 20"
  shows "vec_length (multiplyScalar (normalize v) 20) = 20"
  using assms by (simp add: vec_length_scaled normalize_def)

lemma dragAndClamp_bound: "vec_length (dragAndClamp v) \<le> 20"
  by (simp add: dragAndClamp_def Let_def vec_length_clamped)

subsection \<open>The steps of one particle\<close>

lemma array_get_set_in:
  "i < length xs \<Longrightarrow> array_get (array_set xs i v) j = (if j = i then Some v else array_get xs j)"
  by (simp add: array_get_def array_set_def)

lemma array_get_update:
  "i < length xs \<Longrightarrow> array_get (xs[i := w]) j = (if j = i then w else array_get xs j)"
  by (simp add: array_get_def)

lemma array_set_length_in: "i < length xs \<Longrightarrow> length (array_set xs i v) = length xs"
  by (simp add: array_set_def)

lemma wf_velocity_defined:
  "wf_particles s \<Longrightarrow> i < maxParticles s \<Longrightarrow> i < length (velocities s)"
  unfolding wf_particles_def array_get_def by (metis)

lemma initializeParticle_props:
  assumes w: "wf_particles s" and i: "index < maxParticles s"
  shows "wf_particles (initializeParticle setHSL ts index s)"
    and "maxParticles (initializeParticle setHSL ts index s) = maxParticles s"
    and "isActive (initializeParticle setHSL ts index s) = isActive s"
    and "length (positions (initializeParticle setHSL ts index s)) = length (positions s)"
    and "length (velocities (initializeParticle setHSL ts index s)) = length (velocities s)"
    and "array_get (velocities (initializeParticle setHSL ts index s)) j =
           (if j = index then Some \<lparr>vx = 0, vy = 0, vz = 0\<rparr> else array_get (velocities s) j)"
    and "particle_position (initializeParticle setHSL ts index s) index =
           ((shd (random s) - 0.5) * 4000, shd (stl (random s)) * 2000,
            (shd (stl (stl (random s))) - 0.5) * 1000)"
proof -
  have l: "index < length (velocities s)" using w i by (rule wf_velocity_defined)
  have p: "index * 3 + 2 < length (positions s)" using w i by (simp add: wf_particles_def)
  show "wf_particles (initializeParticle setHSL ts index s)"
    using w l by (auto simp: initializeParticle_def wf_particles_def Let_def array_get_set_in
        array_set_length_in split: prod.splits)
  show "maxParticles (initializeParticle setHSL ts index s) = maxParticles s"
    by (simp add: initializeParticle_def Let_def split: prod.splits)
  show "isActive (initializeParticle setHSL ts index s) = isActive s"
    by (simp add: initializeParticle_def Let_def split: prod.splits)
  show "length (positions (initializeParticle setHSL ts index s)) = length (positions s)"
    by (simp add: initializeParticle_def Let_def split: prod.splits)
  show "length (velocities (initializeParticle setHSL ts index s)) = length (velocities s)"
    using l by (simp add: initializeParticle_def Let_def array_set_length_in split: prod.splits)
  show "array_get (velocities (initializeParticle setHSL ts index s)) j =
           (if j = index then Some \<lparr>vx = 0, vy = 0, vz = 0\<rparr> else array_get (velocities s) j)"
    using l by (simp add: initializeParticle_def Let_def array_get_set_in split: prod.splits)
  show "particle_position (initializeParticle setHSL ts index s) index =
           ((shd (random s) - 0.5) * 4000, shd (stl (random s)) * 2000,
            (shd (stl (stl (random s))) - 0.5) * 1000)"
    using p by (simp add: initializeParticle_def Let_def particle_position_def split: prod.splits)
qed

lemma integrateParticle_props:
  assumes w: "wf_particles s" and i: "index < maxParticles s"
  shows "\<exists>s1. integrateParticle ts index deltaTime s = Some s1 \<and> wf_particles s1 \<and>
     maxParticles s1 = maxParticles s \<and> isActive s1 = isActive s \<and> random s1 = random s \<and>
     length (positions s1) = length (positions s) \<and>
     length (velocities s1) = length (velocities s) \<and>
     speed_ok s1 index \<and>
     (\<forall>j. j \<noteq> index \<longrightarrow> array_get (velocities s1) j = array_get (velocities s) j)"
proof -
  have l: "index < length (velocities s)" using w i by (rule wf_velocity_defined)
  obtain v0 where v0: "array_get (velocities s) index = Some v0"
    using w i by (auto simp: wf_particles_def)
  show ?thesis
    using w l v0
    by (auto simp: integrateParticle_def Let_def wf_particles_def array_get_update speed_ok_def
        dragAndClamp_bound)
qed

lemma checkBoundaries_props:
  assumes w: "wf_particles s" and i: "index < maxParticles s"
  shows "wf_particles (checkBoundaries setHSL ts index s)"
    and "maxParticles (checkBoundaries setHSL ts index s) = maxParticles s"
    and "isActive (checkBoundaries setHSL ts index s) = isActive s"
    and "length (positions (checkBoundaries setHSL ts index s)) = length (positions s)"
    and "length (velocities (checkBoundaries setHSL ts index s)) = length (velocities s)"
    and "speed_ok s index \<Longrightarrow> speed_ok (checkBoundaries setHSL ts index s) index"
    and "j \<noteq> index \<Longrightarrow>
           array_get (velocities (checkBoundaries setHSL ts index s)) j = array_get (velocities s) j"
  using initializeParticle_props [OF w i, of setHSL ts] w
  by (simp_all add: checkBoundaries_def speed_ok_def vec_length_zero)

lemma recolorParticle_props:
  "positions (recolorParticle setHSL ts index s) = positions s"
  "velocities (recolorParticle setHSL ts index s) = velocities s"
  "maxParticles (recolorParticle setHSL ts index s) = maxParticles s"
  "isActive (recolorParticle setHSL ts index s) = isActive s"
  "wf_particles s \<Longrightarrow> wf_particles (recolorParticle setHSL ts index s)"
  by (simp_all add: recolorParticle_def Let_def wf_particles_def split: prod.splits)

lemma speed_ok_recolor: "speed_ok (recolorParticle setHSL ts index s) i = speed_ok s i"
  by (simp add: speed_ok_def recolorParticle_props)

subsection \<open>Recycling at the boundary\<close>

lemma needsReset_eq: "needsReset s index = out_of_domain (particle_position s index)"
  by (simp add: needsReset_def out_of_domain_def particle_position_def Let_def)

lemma unit_interval_streamD:
  assumes "unit_interval_stream r"
  shows "0 \<le> shd r \<and> shd r < 1" "0 \<le> shd (stl r) \<and> shd (stl r) < 1"
    "0 \<le> shd (stl (stl r)) \<and> shd (stl (stl r)) < 1"
proof -
  have "shd r \<in> sset r" "shd (stl r) \<in> sset r" "shd (stl (stl r)) \<in> sset r"
    by (simp_all add: shd_sset stl_sset)
  then show "0 \<le> shd r \<and> shd r < 1" "0 \<le> shd (stl r) \<and> shd (stl r) < 1"
    "0 \<le> shd (stl (stl r)) \<and> shd (stl (stl r)) < 1"
    using assms by (simp_all add: unit_interval_stream_def)
qed

lemma fresh_position_in_domain:
  assumes "unit_interval_stream r"
  shows "in_domain ((shd r - 0.5) * 4000, shd (stl r) * 2000, (shd (stl (stl r)) - 0.5) * 1000)"
  using unit_interval_streamD [OF assms] by (simp add: in_domain_def)

text \<open>
  C5. For every particle \<open>index\<close> of the set, every \<open>dt\<close> and every random stream with
  values in \<open>[0, 1)\<close>: the advection step of the particle returns, and if the position
  after integration has \<open>|x| > 2000\<close> or \<open>y < 0\<close> or \<open>y > 2000\<close> or \<open>|z| > 500\<close>, then after
  the step the particle holds, in the same slot, the position drawn from the random
  stream, which lies in the domain box, and the velocity zero; the position and velocity
  just computed are gone, and the number of particles and the sizes of the position and
  velocity storage are unchanged.
\<close>

theorem out_of_domain_particle_recycled:
  assumes w: "wf_particles s" and i: "index < maxParticles s"
    and r: "unit_interval_stream (random s)"
  shows "\<exists>s1 s'. integrateParticle ts index dt s = Some s1 \<and>
     updateParticle setHSL ts index dt s = Some s' \<and>
     (out_of_domain (particle_position s1 index) \<longrightarrow>
        particle_position s' index =
          ((shd (random s) - 0.5) * 4000, shd (stl (random s)) * 2000,
           (shd (stl (stl (random s))) - 0.5) * 1000) \<and>
        in_domain (particle_position s' index) \<and>
        array_get (velocities s') index = Some \<lparr>vx = 0, vy = 0, vz = 0\<rparr> \<and>
        maxParticles s' = maxParticles s \<and>
        length (positions s') = length (positions s) \<and>
        length (velocities s') = length (velocities s))"
proof -
  obtain s1 where s1: "integrateParticle ts index dt s = Some s1" "wf_particles s1"
      "maxParticles s1 = maxParticles s" "random s1 = random s"
      "length (positions s1) = length (positions s)"
      "length (velocities s1) = length (velocities s)"
    using integrateParticle_props [OF w i, where ts = ts and deltaTime = dt] by blast
  let ?s' = "recolorParticle setHSL ts index (checkBoundaries setHSL ts index s1)"
  have u: "updateParticle setHSL ts index dt s = Some ?s'"
    by (simp add: updateParticle_def s1(1))
  have i1: "index < maxParticles s1" using i s1(3) by simp
  have "particle_position ?s' index =
          ((shd (random s) - 0.5) * 4000, shd (stl (random s)) * 2000,
           (shd (stl (stl (random s))) - 0.5) * 1000) \<and>
        in_domain (particle_position ?s' index) \<and>
        array_get (velocities ?s') index = Some \<lparr>vx = 0, vy = 0, vz = 0\<rparr> \<and>
        maxParticles ?s' = maxParticles s \<and>
        length (positions ?s') = length (positions s) \<and>
        length (velocities ?s') = length (velocities s)"
    if o: "out_of_domain (particle_position s1 index)"
  proof -
    have c: "checkBoundaries setHSL ts index s1 = initializeParticle setHSL ts index s1"
      using o by (simp add: checkBoundaries_def needsReset_eq)
    have pp: "particle_position ?s' index =
        particle_position (initializeParticle setHSL ts index s1) index"
      by (simp add: particle_position_def recolorParticle_props c)
    note ip = initializeParticle_props [OF s1(2) i1, where setHSL = setHSL and ts = ts]
    show ?thesis
      unfolding pp
      using ip(2,4,5,7) ip(6) [where j = index] fresh_position_in_domain [OF r] s1(3,4,5,6)
      by (simp add: recolorParticle_props c)
  qed
  then show ?thesis using s1(1) u by blast
qed

subsection \<open>The speed limit after an update of the set\<close>

lemma updateParticle_props:
  assumes w: "wf_particles s" and i: "index < maxParticles s"
  shows "\<exists>s'. updateParticle setHSL ts index dt s = Some s' \<and> wf_particles s' \<and>
     maxParticles s' = maxParticles s \<and> isActive s' = isActive s \<and> speed_ok s' index \<and>
     (\<forall>j. j \<noteq> index \<longrightarrow> array_get (velocities s') j = array_get (velocities s) j)"
proof -
  obtain s1 where s1: "integrateParticle ts index dt s = Some s1" "wf_particles s1"
      "maxParticles s1 = maxParticles s" "isActive s1 = isActive s" "speed_ok s1 index"
      "\<forall>j. j \<noteq> index \<longrightarrow> array_get (velocities s1) j = array_get (velocities s) j"
    using integrateParticle_props [OF w i, where ts = ts and deltaTime = dt] by blast
  have i1: "index < maxParticles s1" using i s1(3) by simp
  note cb = checkBoundaries_props [OF s1(2) i1, where setHSL = setHSL and ts = ts]
  let ?s' = "recolorParticle setHSL ts index (checkBoundaries setHSL ts index s1)"
  have "updateParticle setHSL ts index dt s = Some ?s'"
    by (simp add: updateParticle_def s1(1))
  moreover have "wf_particles ?s'" by (simp add: recolorParticle_props cb(1))
  moreover have "maxParticles ?s' = maxParticles s" "isActive ?s' = isActive s"
    by (simp_all add: recolorParticle_props cb s1)
  moreover have "speed_ok ?s' index"
    by (simp add: speed_ok_recolor cb(6) [OF s1(5)])
  moreover have "\<forall>j. j \<noteq> index \<longrightarrow> array_get (velocities ?s') j = array_get (velocities s) j"
    using s1(6) cb(7) by (simp add: recolorParticle_props)
  ultimately show ?thesis by blast
qed

lemma updateLoop_props:
  assumes "wf_particles s" and "\<forall>i \<in> set js. i < maxParticles s"
  shows "\<exists>s'. updateLoop setHSL ts dt js s = Some s' \<and> wf_particles s' \<and>
     maxParticles s' = maxParticles s \<and> isActive s' = isActive s \<and>
     (\<forall>i \<in> set js. speed_ok s' i) \<and>
     (\<forall>j. j \<notin> set js \<longrightarrow> array_get (velocities s') j = array_get (velocities s) j)"
  using assms
proof (induction js arbitrary: s)
  case Nil
  then show ?case by simp
next
  case (Cons i js)
  have i: "i < maxParticles s" using Cons.prems(2) by simp
  obtain s1 where s1: "updateParticle setHSL ts i dt s = Some s1" "wf_particles s1"
      "maxParticles s1 = maxParticles s" "isActive s1 = isActive s" "speed_ok s1 i"
      "\<forall>j. j \<noteq> i \<longrightarrow> array_get (velocities s1) j = array_get (velocities s) j"
    using updateParticle_props [OF Cons.prems(1) i, where setHSL = setHSL and ts = ts and dt = dt] by blast
  have b: "\<forall>i \<in> set js. i < maxParticles s1" using Cons.prems(2) s1(3) by simp
  obtain s' where s': "updateLoop setHSL ts dt js s1 = Some s'" "wf_particles s'"
      "maxParticles s' = maxParticles s1" "isActive s' = isActive s1"
      "\<forall>i \<in> set js. speed_ok s' i"
      "\<forall>j. j \<notin> set js \<longrightarrow> array_get (velocities s') j = array_get (velocities s1) j"
    using Cons.IH [OF s1(2) b] by blast
  have "updateLoop setHSL ts dt (i # js) s = Some s'" by (simp add: s1(1) s'(1))
  moreover have "speed_ok s' i"
  proof (cases "i \<in> set js")
    case True
    then show ?thesis using s'(5) by simp
  next
    case False
    then have "array_get (velocities s') i = array_get (velocities s1) i" using s'(6) by simp
    then show ?thesis using s1(5) by (simp add: speed_ok_def)
  qed
  moreover have "\<forall>j. j \<notin> set (i # js) \<longrightarrow> array_get (velocities s') j = array_get (velocities s) j"
    using s'(6) s1(6) by simp
  ultimately show ?case using s'(2,3,4,5) s1(3,4) by auto
qed

text \<open>
  C6. A call of \<open>update\<close> on a particle set returns, and after it every particle has a
  velocity of magnitude at most 20, recycled or not: when the set is running every
  particle has gone through the speed limit or been reset to velocity zero, and when
  it is paused the velocities are unchanged, so the bound carries over.
\<close>

theorem speed_clamped_after_update:
  assumes w: "wf_particles s"
  shows "\<exists>s'. update setHSL ts dt s = Some s' \<and> wf_particles s' \<and>
     (isActive s \<or> all_speeds_ok s \<longrightarrow> all_speeds_ok s')"
proof (cases "isActive s")
  case False
  then show ?thesis using w by (simp add: update_def)
next
  case True
  have b: "\<forall>i \<in> set [0..<maxParticles s]. i < maxParticles s" by simp
  obtain s' where s': "updateLoop setHSL ts (dt * particleSpeed s) [0..<maxParticles s] s = Some s'"
      "wf_particles s'" "maxParticles s' = maxParticles s"
      "\<forall>i \<in> set [0..<maxParticles s]. speed_ok s' i"
    using updateLoop_props [OF w b, where setHSL = setHSL and ts = ts and dt = "dt * particleSpeed s"] by blast
  have "update setHSL ts dt s = Some s'" using True s'(1) by (simp add: update_def Let_def)
  moreover have "all_speeds_ok s'" using s'(3,4) by (simp add: all_speeds_ok_def)
  ultimately show ?thesis using s'(2) by blast
qed

subsection \<open>A particle leaving through the top of the domain\<close>

lemma sqrt_greater_20: "sqrt x > 20 \<longleftrightarrow> x > 400"
  using real_sqrt_less_iff [of 400 x] real_sqrt_abs [of 20] by simp

lemma example_particles_wf:
  "wf_particles example_particles" "(0::nat) < maxParticles example_particles"
  "unit_interval_stream (random example_particles)"
  by (simp_all add: example_particles_def wf_particles_def array_get_def unit_interval_stream_def)

lemma tiny_above_grid:
  "getPressureAt (new_ThermalSystem tiny_params) x 1990 z = 101325"
  "getTemperatureAt (new_ThermalSystem tiny_params) x 1990 z = 20"
  "getTemperatureAt (new_ThermalSystem tiny_params) x 1890 z = 20"
  by (simp_all add: getPressureAt_def getTemperatureAt_def new_ThermalSystem_params tiny_params_def
      Let_def)

lemma example_integrate:
  "integrateParticle (new_ThermalSystem tiny_params) 0 1 example_particles =
     Some (example_particles\<lparr>velocities := [Some \<lparr>vx = 0, vy = 19.6, vz = 0\<rparr>],
       positions := [0, 2009.6, 0]\<rparr>)"
  by (simp add: integrateParticle_def example_particles_def array_get_def accelerate_def
      dragAndClamp_def getWindVectorAt_def buoyancyForce_def tiny_above_grid Let_def
      vec_add_def multiplyScalar_def vec_length_def sqrt_greater_20)

text \<open>
  The particle at \<open>(0, 1990, 0)\<close> with velocity \<open>(0, 20, 0)\<close> in still air moves to
  \<open>y = 2009.6\<close> in one step of \<open>dt = 1\<close> and is recycled to \<open>(0, 1000, 0)\<close> with velocity
  zero.
\<close>

theorem out_of_domain_particle_recycled_witness:
  "wf_particles example_particles \<and> (0::nat) < maxParticles example_particles \<and>
   unit_interval_stream (random example_particles) \<and>
   (\<exists>s1 s'. integrateParticle (new_ThermalSystem tiny_params) 0 1 example_particles = Some s1 \<and>
      updateParticle example_color (new_ThermalSystem tiny_params) 0 1 example_particles = Some s' \<and>
      out_of_domain (particle_position s1 0) \<and>
      particle_position s' 0 = (0, 1000, 0) \<and> in_domain (particle_position s' 0) \<and>
      array_get (velocities s') 0 = Some \<lparr>vx = 0, vy = 0, vz = 0\<rparr> \<and>
      length (positions s') = 3 \<and> length (velocities s') = 1)"
proof -
  obtain s1 s' where
    a: "integrateParticle (new_ThermalSystem tiny_params) 0 1 example_particles = Some s1"
    and b: "updateParticle example_color (new_ThermalSystem tiny_params) 0 1 example_particles = Some s'"
    and c: "out_of_domain (particle_position s1 0) \<longrightarrow>
        particle_position s' 0 =
          ((shd (random example_particles) - 0.5) * 4000, shd (stl (random example_particles)) * 2000,
           (shd (stl (stl (random example_particles))) - 0.5) * 1000) \<and>
        in_domain (particle_position s' 0) \<and>
        array_get (velocities s') 0 = Some \<lparr>vx = 0, vy = 0, vz = 0\<rparr> \<and>
        maxParticles s' = maxParticles example_particles \<and>
        length (positions s') = length (positions example_particles) \<and>
        length (velocities s') = length (velocities example_particles)"
    using out_of_domain_particle_recycled [OF example_particles_wf,
        where ts = "new_ThermalSystem tiny_params" and dt = 1 and setHSL = example_color]
    by blast
  have o: "out_of_domain (particle_position s1 0)"
    using a unfolding example_integrate
    by (auto simp: out_of_domain_def particle_position_def)
  have "particle_position s' 0 = (0, 1000, 0) \<and> in_domain (particle_position s' 0) \<and>
      array_get (velocities s') 0 = Some \<lparr>vx = 0, vy = 0, vz = 0\<rparr> \<and>
      length (positions s') = 3 \<and> length (velocities s') = 1"
    using c o by (simp add: example_particles_def in_domain_def)
  then show ?thesis using a b o example_particles_wf by blast
qed

text \<open>The same set after one call of \<open>update\<close>.\<close>

theorem speed_clamped_after_update_witness:
  "wf_particles example_particles \<and> isActive example_particles \<and>
   (\<exists>s'. update example_color (new_ThermalSystem tiny_params) 1 example_particles = Some s' \<and>
      wf_particles s' \<and> all_speeds_ok s')"
proof -
  have "isActive example_particles" by (simp add: example_particles_def)
  then show ?thesis
    using speed_clamped_after_update [OF example_particles_wf(1),
        where ts = "new_ThermalSystem tiny_params" and dt = 1 and setHSL = example_color]
      example_particles_wf(1)
    by blast
qed

subsection \<open>The buoyancy term\<close>

text \<open>The velocity after wind and buoyancy, by components.\<close>

lemma accelerate_components:
  "buoyancyForce ts x y z = (getTemperatureAt ts x y z - 20) * 0.001 \<and>
   vy (accelerate ts dt x y z v) =
     vy v + vy (getWindVectorAt ts x y z) * dt + (getTemperatureAt ts x y z - 20) * 0.001 * dt \<and>
   vx (accelerate ts dt x y z v) = vx v + vx (getWindVectorAt ts x y z) * dt \<and>
   vz (accelerate ts dt x y z v) = vz v + vz (getWindVectorAt ts x y z) * dt"
  by (simp add: buoyancyForce_def accelerate_def Let_def vec_add_def multiplyScalar_def)

lemma warm_sample: "getTemperatureAt (new_ThermalSystem warm_params) 0 0 0 = 30"
proof -
  let ?s0 = "\<lparr>params = warm_params, temperatureField = [], pressureField = [],
       densityField = [], heatIntensity = 80, coldIntensity = 60\<rparr>"
  have g: "in_grid (params ?s0) (0, 25, 6)"
    by (simp add: in_grid_def warm_params_def)
  have "getTemperatureAt (new_ThermalSystem warm_params) 0 0 0 =
      cell (temperatureField (new_ThermalSystem warm_params)) 0 25 6"
    by (simp add: getTemperatureAt_def new_ThermalSystem_params Let_def warm_params_def)
  also have "\<dots> = baseTemperature (params ?s0) - levelHeight (params ?s0) 0 * 0.0065"
    unfolding new_ThermalSystem_def by (rule initializeFields_cells(1) [OF g])
  also have "\<dots> = 30"
    by (simp add: levelHeight_def warm_params_def)
  finally show ?thesis .
qed

text \<open>
  C7, as stated, with the configured base temperature as the reference: it fails for the
  system configured with base temperature 30, at the particle position \<open>(0, 0, 0)\<close> where
  the air has exactly that temperature.
\<close>

theorem buoyancy_not_configured_baseline:
  "baseTemperature (params (new_ThermalSystem warm_params)) = 30 \<and>
   buoyancyForce (new_ThermalSystem warm_params) 0 0 0 \<noteq>
     (getTemperatureAt (new_ThermalSystem warm_params) 0 0 0 -
      baseTemperature (params (new_ThermalSystem warm_params))) * 0.001 \<and>
   vy (accelerate (new_ThermalSystem warm_params) 1 0 0 0 \<lparr>vx = 0, vy = 0, vz = 0\<rparr>) \<noteq>
     vy \<lparr>vx = 0, vy = 0, vz = 0\<rparr> +
     vy (getWindVectorAt (new_ThermalSystem warm_params) 0 0 0) * 1 +
     (getTemperatureAt (new_ThermalSystem warm_params) 0 0 0 -
      baseTemperature (params (new_ThermalSystem warm_params))) * 0.001 * 1"
  by (simp add: buoyancyForce_def accelerate_def Let_def vec_add_def multiplyScalar_def
      warm_sample new_ThermalSystem_params warm_params_def)

subsection \<open>Resizing the particle set\<close>

lemma initializeParticle_velocities:
  "velocities (initializeParticle setHSL ts index s) =
     array_set (velocities s) index \<lparr>vx = 0, vy = 0, vz = 0\<rparr>"
  by (simp add: initializeParticle_def Let_def split: prod.splits)

lemma initializeParticle_frame:
  "maxParticles (initializeParticle setHSL ts index s) = maxParticles s"
  "length (positions (initializeParticle setHSL ts index s)) = length (positions s)"
  "length (colors (initializeParticle setHSL ts index s)) = length (colors s)"
  "length (sizes (initializeParticle setHSL ts index s)) = length (sizes s)"
  by (simp_all add: initializeParticle_def Let_def split: prod.splits)

lemma fold_initializeParticle_frame:
  "maxParticles (fold (\<lambda>i. initializeParticle setHSL ts i) js s) = maxParticles s \<and>
   length (positions (fold (\<lambda>i. initializeParticle setHSL ts i) js s)) = length (positions s) \<and>
   length (colors (fold (\<lambda>i. initializeParticle setHSL ts i) js s)) = length (colors s) \<and>
   length (sizes (fold (\<lambda>i. initializeParticle setHSL ts i) js s)) = length (sizes s)"
  by (induction js arbitrary: s) (simp_all add: initializeParticle_frame)

lemma array_set_next:
  "array_set (replicate n (Some v) @ drop n xs) n v = replicate (Suc n) (Some v) @ drop (Suc n) xs"
proof (cases "n < length xs")
  case True
  then have d: "drop n xs = xs ! n # drop (Suc n) xs" by (simp add: Cons_nth_drop_Suc)
  have "array_set (replicate n (Some v) @ drop n xs) n v =
      (replicate n (Some v) @ drop n xs)[n := Some v]"
    using True by (simp add: array_set_def)
  also have "\<dots> = replicate n (Some v) @ (drop n xs)[0 := Some v]"
    by (simp add: list_update_append)
  also have "\<dots> = replicate n (Some v) @ Some v # drop (Suc n) xs"
    unfolding d by simp
  also have "\<dots> = replicate (Suc n) (Some v) @ drop (Suc n) xs"
    by (simp add: replicate_append_same)
  finally show ?thesis .
next
  case False
  then show ?thesis by (simp add: array_set_def replicate_append_same)
qed

lemma fold_initializeParticle_velocities:
  "velocities (fold (\<lambda>i. initializeParticle setHSL ts i) [0..<n] s) =
     replicate n (Some \<lparr>vx = 0, vy = 0, vz = 0\<rparr>) @ drop n (velocities s)"
proof (induction n)
  case 0
  then show ?case by simp
next
  case (Suc n)
  show ?case
    unfolding upt_Suc_append [OF le0] fold_append comp_def fold_simps
      initializeParticle_velocities Suc
    by (rule array_set_next)
qed

lemma createParticleSystem_storage:
  "maxParticles (createParticleSystem setHSL ts s) = maxParticles s"
  "length (positions (createParticleSystem setHSL ts s)) = maxParticles s * 3"
  "length (colors (createParticleSystem setHSL ts s)) = maxParticles s * 3"
  "length (sizes (createParticleSystem setHSL ts s)) = maxParticles s"
  "velocities (createParticleSystem setHSL ts s) =
     replicate (maxParticles s) (Some \<lparr>vx = 0, vy = 0, vz = 0\<rparr>) @
     drop (maxParticles s) (velocities s)"
  by (simp_all add: createParticleSystem_def fold_initializeParticle_frame
      fold_initializeParticle_velocities)

lemma setParticleCount_storage:
  "maxParticles (setParticleCount setHSL ts count s) = nat (max 100 (min 2000 count))"
  "length (positions (setParticleCount setHSL ts count s)) = nat (max 100 (min 2000 count)) * 3"
  "velocities (setParticleCount setHSL ts count s) =
     replicate (nat (max 100 (min 2000 count))) (Some \<lparr>vx = 0, vy = 0, vz = 0\<rparr>) @
     drop (nat (max 100 (min 2000 count))) (velocities s)"
  by (simp_all add: setParticleCount_def Let_def createParticleSystem_storage)

text \<open>
  C9 says that after \<open>setParticleCount v\<close> all per-particle storage holds exactly
  \<open>clamp(v, 100, 2000)\<close> fresh particles and nothing of the previous set. For the set of
  1000 moving particles and \<open>v = 100\<close>, the count becomes 100 and the position buffer
  holds 100 particles, but \<open>velocities\<close> still has 1000 entries and entry 999 is the old
  velocity \<open>(1, 0, 0)\<close>.
\<close>

theorem setParticleCount_keeps_old_velocities:
  "maxParticles (setParticleCount example_color (new_ThermalSystem tiny_params) 100 resize_example) = 100 \<and>
   length (positions (setParticleCount example_color (new_ThermalSystem tiny_params) 100 resize_example)) = 300 \<and>
   length (velocities (setParticleCount example_color (new_ThermalSystem tiny_params) 100 resize_example)) = 1000 \<and>
   array_get (velocities (setParticleCount example_color (new_ThermalSystem tiny_params) 100 resize_example)) 999 =
     Some \<lparr>vx = 1, vy = 0, vz = 0\<rparr>"
  by (simp add: setParticleCount_storage resize_example_def array_get_def nth_append)

text \<open>
  A newly created set has its buffers at the size of the count and all velocities zero;
  so has the set after \<open>setParticleCount\<close>, for its first \<open>maxParticles\<close> entries.
\<close>

lemma createParticleSystem_wf:
  "wf_particles (createParticleSystem setHSL ts s) \<and> all_speeds_ok (createParticleSystem setHSL ts s)"
  by (simp add: wf_particles_def all_speeds_ok_def speed_ok_def createParticleSystem_storage
      array_get_def nth_append vec_length_zero)

lemma setParticleCount_wf:
  "wf_particles (setParticleCount setHSL ts count s) \<and>
   all_speeds_ok (setParticleCount setHSL ts count s)"
  by (simp add: setParticleCount_def Let_def createParticleSystem_wf)

lemma reset_wf:
  assumes "wf_particles s"
  shows "wf_particles (reset setHSL ts s) \<and> all_speeds_ok (reset setHSL ts s) \<and>
         \<not> isActive (reset setHSL ts s)"
proof -
  have v: "velocities (reset setHSL ts s) =
      replicate (maxParticles s) (Some \<lparr>vx = 0, vy = 0, vz = 0\<rparr>) @
      drop (maxParticles s) (velocities s)"
    by (simp add: reset_def pause_def fold_initializeParticle_velocities)
  have f: "maxParticles (reset setHSL ts s) = maxParticles s"
    "length (positions (reset setHSL ts s)) = length (positions s)"
    "length (colors (reset setHSL ts s)) = length (colors s)"
    "length (sizes (reset setHSL ts s)) = length (sizes s)"
    by (simp_all add: reset_def pause_def fold_initializeParticle_frame)
  have a: "isActive (fold (\<lambda>i. initializeParticle setHSL ts i) js s') = isActive s'" for js s'
    by (induction js arbitrary: s') (simp_all add: initializeParticle_def Let_def split: prod.splits)
  have "\<not> isActive (reset setHSL ts s)"
    by (simp add: reset_def a pause_def)
  then show ?thesis
    using assms
    by (simp add: wf_particles_def all_speeds_ok_def speed_ok_def v f array_get_def nth_append
        vec_length_zero)
qed

text \<open>
  With the base temperature configured as 20, the reference of the buoyancy term is the
  configured one.
\<close>

lemma buoyancy_default_baseline:
  "baseTemperature (params ts) = 20 \<Longrightarrow>
   buoyancyForce ts x y z = (getTemperatureAt ts x y z - baseTemperature (params ts)) * 0.001"
  by (simp add: buoyancyForce_def)

subsection \<open>The buoyancy term in the advection step\<close>

text \<open>
  C7, amended: in the advection step of particle \<open>index\<close>, which is at \<open>(x, y, z)\<close> with
  velocity \<open>v0\<close>, for every configuration: the step returns, and the velocity that goes
  into drag and the speed limit is \<open>v0\<close> plus the wind at \<open>(x, y, z)\<close> times \<open>dt\<close>, with the
  buoyancy term \<open>(temperatureAt(x, y, z) - 20) * 0.001\<close>, scaled by \<open>dt\<close>, added to its
  vertical component. The reference temperature is the constant 20 of the particle code,
  not the configured base temperature. The result of drag and the speed limit is the
  velocity stored for the particle, the position advances by it times \<open>dt\<close>, and unless
  the particle is recycled it is the particle's velocity after \<open>updateParticle\<close>.
\<close>

theorem buoyancy_uses_fixed_reference:
  assumes w: "wf_particles s" and i: "index < maxParticles s"
    and p: "particle_position s index = (x, y, z)"
    and v: "array_get (velocities s) index = Some v0"
  shows "\<exists>va s1 s'.
     va = dragAndClamp
       \<lparr>vx = vx v0 + vx (getWindVectorAt ts x y z) * dt,
        vy = vy v0 + vy (getWindVectorAt ts x y z) * dt +
             (getTemperatureAt ts x y z - 20) * 0.001 * dt,
        vz = vz v0 + vz (getWindVectorAt ts x y z) * dt\<rparr> \<and>
     integrateParticle ts index dt s = Some s1 \<and>
     array_get (velocities s1) index = Some va \<and>
     particle_position s1 index = (x + vx va * dt, y + vy va * dt, z + vz va * dt) \<and>
     updateParticle setHSL ts index dt s = Some s' \<and>
     (\<not> out_of_domain (particle_position s1 index) \<longrightarrow>
        array_get (velocities s') index = Some va)"
proof -
  let ?a = "\<lparr>vx = vx v0 + vx (getWindVectorAt ts x y z) * dt,
        vy = vy v0 + vy (getWindVectorAt ts x y z) * dt +
             (getTemperatureAt ts x y z - 20) * 0.001 * dt,
        vz = vz v0 + vz (getWindVectorAt ts x y z) * dt\<rparr>"
  let ?va = "dragAndClamp ?a"
  let ?s1 = "s\<lparr>velocities := (velocities s)[index := Some ?va],
        positions := (positions s)
          [index * 3 := x + vx ?va * dt,
           index * 3 + 1 := y + vy ?va * dt,
           index * 3 + 2 := z + vz ?va * dt]\<rparr>"
  have l: "index < length (velocities s)" using w i by (rule wf_velocity_defined)
  have pl: "index * 3 + 2 < length (positions s)" using w i by (simp add: wf_particles_def)
  have xyz: "positions s ! (index * 3) = x" "positions s ! (index * 3 + 1) = y"
    "positions s ! (index * 3 + 2) = z"
    using p by (simp_all add: particle_position_def)
  have acc: "accelerate ts dt x y z v0 = ?a"
    by (simp add: accelerate_def buoyancyForce_def Let_def vec_add_def multiplyScalar_def)
  have int: "integrateParticle ts index dt s = Some ?s1"
    using xyz by (simp add: integrateParticle_def Let_def v acc)
  have vel: "array_get (velocities ?s1) index = Some ?va"
    using l by (simp add: array_get_def)
  have pos: "particle_position ?s1 index =
      (x + vx ?va * dt, y + vy ?va * dt, z + vz ?va * dt)"
    using pl by (simp add: particle_position_def)
  let ?s' = "recolorParticle setHSL ts index (checkBoundaries setHSL ts index ?s1)"
  have upd: "updateParticle setHSL ts index dt s = Some ?s'"
    by (simp add: updateParticle_def int)
  have keep: "array_get (velocities ?s') index = Some ?va"
    if "\<not> out_of_domain (particle_position ?s1 index)"
  proof -
    have "checkBoundaries setHSL ts index ?s1 = ?s1"
      using that by (simp add: checkBoundaries_def needsReset_eq)
    then show ?thesis
      using vel by (simp add: recolorParticle_props)
  qed
  show ?thesis
    using int vel pos upd keep by blast
qed

lemma warm_still_air:
  "getWindVectorAt (new_ThermalSystem warm_params) 0 0 0 = \<lparr>vx = 0, vy = 0, vz = 0\<rparr>"
proof -
  have p: "getPressureAt (new_ThermalSystem warm_params) 50 0 0 =
      getPressureAt (new_ThermalSystem warm_params) 0 0 0"
    "getPressureAt (new_ThermalSystem warm_params) 0 0 50 =
      getPressureAt (new_ThermalSystem warm_params) 0 0 0"
    by (simp_all add: getPressureAt_def new_ThermalSystem_params Let_def warm_params_def)
  have t: "getTemperatureAt (new_ThermalSystem warm_params) 0 (-100) 0 = 30"
    by (simp add: getTemperatureAt_def new_ThermalSystem_params Let_def warm_params_def)
  show ?thesis
    by (simp add: getWindVectorAt_def Let_def p t warm_sample)
qed

text \<open>
  The particle at rest at the origin of the system with base temperature 30, where
  the air is still and has exactly that temperature: after one step of \<open>dt = 1\<close> it
  rises with velocity \<open>(30 - 20) * 0.001 * 0.98\<close>.
\<close>

theorem buoyancy_uses_fixed_reference_witness:
  "wf_particles still_particle \<and> (0::nat) < maxParticles still_particle \<and>
   particle_position still_particle 0 = (0, 0, 0) \<and>
   array_get (velocities still_particle) 0 = Some \<lparr>vx = 0, vy = 0, vz = 0\<rparr> \<and>
   baseTemperature (params (new_ThermalSystem warm_params)) = 30 \<and>
   (\<exists>s'. updateParticle example_color (new_ThermalSystem warm_params) 0 1 still_particle = Some s' \<and>
      array_get (velocities s') 0 = Some \<lparr>vx = 0, vy = 49 / 5000, vz = 0\<rparr>)"
proof -
  have h: "wf_particles still_particle" "(0::nat) < maxParticles still_particle"
    "particle_position still_particle 0 = (0, 0, 0)"
    "array_get (velocities still_particle) 0 = Some \<lparr>vx = 0, vy = 0, vz = 0\<rparr>"
    by (simp_all add: still_particle_def wf_particles_def array_get_def particle_position_def)
  have d: "dragAndClamp \<lparr>vx = 0, vy = 1 / 100, vz = 0\<rparr> = \<lparr>vx = 0, vy = 49 / 5000, vz = 0\<rparr>"
    by (simp add: dragAndClamp_def Let_def multiplyScalar_def vec_length_def sqrt_greater_20)
  obtain va s1 s' where
    va: "va = dragAndClamp
       \<lparr>vx = vx \<lparr>vx = 0, vy = 0, vz = 0\<rparr> +
             vx (getWindVectorAt (new_ThermalSystem warm_params) 0 0 0) * 1,
        vy = vy \<lparr>vx = 0, vy = 0, vz = 0\<rparr> +
             vy (getWindVectorAt (new_ThermalSystem warm_params) 0 0 0) * 1 +
             (getTemperatureAt (new_ThermalSystem warm_params) 0 0 0 - 20) * 0.001 * 1,
        vz = vz \<lparr>vx = 0, vy = 0, vz = 0\<rparr> +
             vz (getWindVectorAt (new_ThermalSystem warm_params) 0 0 0) * 1\<rparr>"
    and pos: "particle_position s1 0 = (0 + vx va * 1, 0 + vy va * 1, 0 + vz va * 1)"
    and upd: "updateParticle example_color (new_ThermalSystem warm_params) 0 1 still_particle = Some s'"
    and keep: "\<not> out_of_domain (particle_position s1 0) \<longrightarrow>
        array_get (velocities s') 0 = Some va"
    using buoyancy_uses_fixed_reference [OF h, where ts = "new_ThermalSystem warm_params"
        and dt = 1 and setHSL = example_color]
    by blast
  have va': "va = \<lparr>vx = 0, vy = 49 / 5000, vz = 0\<rparr>"
    unfolding va by (simp add: warm_still_air warm_sample d)
  have "\<not> out_of_domain (particle_position s1 0)"
    unfolding pos va' by (simp add: out_of_domain_def)
  then have "array_get (velocities s') 0 = Some \<lparr>vx = 0, vy = 49 / 5000, vz = 0\<rparr>"
    using keep va' by simp
  then show ?thesis
    using h upd by (simp add: new_ThermalSystem_params warm_params_def)
qed

end
